theory Spec2Isabelle
  imports Main "HOL-Library.Word" "HOL-Library.Sublist"
begin

section \<open>Registry replication engine: the memory-gated work queue\<close>

text \<open>
  The definitions of this section follow \<^verbatim>\<open>RegistryService\<close>
  (\<^verbatim>\<open>services/auth.service.ts\<close>, second document) and the memory gate of
  \<^verbatim>\<open>ContainerRegistryClient\<close> (\<^verbatim>\<open>commons/registry/client.ts\<close>).
  Byte counts and job counts are natural numbers; the concurrency level is an \<open>int\<close>,
  since the source subtracts from it before clamping.
\<close>

subsection \<open>Constants\<close>

definition DEFAULT_CONCURRENCY :: int where "DEFAULT_CONCURRENCY = 5"
definition MAX_CONCURRENCY :: int where "MAX_CONCURRENCY = 10"
definition MIN_CONCURRENCY :: int where "MIN_CONCURRENCY = 1"
definition MEMORY_THRESHOLD :: nat where "MEMORY_THRESHOLD = 3 * 1024 * 1024 * 1024"
definition MAX_QUEUE_SIZE :: nat where "MAX_QUEUE_SIZE = 1000"

subsection \<open>Host samples\<close>

text \<open>\<^verbatim>\<open>process.memoryUsage()\<close>: the fields the source reads.\<close>

record memoryUsage =
  rss :: nat
  heapTotal :: nat
  heapUsed :: nat
  external :: nat
  arrayBuffers :: nat

text \<open>\<^verbatim>\<open>heapUsed + external + arrayBuffers\<close>, as computed in
  \<^verbatim>\<open>adjustConcurrency\<close> and in \<^verbatim>\<open>waitForMemoryAvailability\<close>.\<close>

definition totalUsed :: "memoryUsage \<Rightarrow> nat" where
  "totalUsed mem = heapUsed mem + external mem + arrayBuffers mem"

text \<open>A sample of the host as a whole: the process figures and \<^verbatim>\<open>os.freemem()\<close>,
  \<^verbatim>\<open>os.totalmem()\<close>.\<close>

record hostSample =
  process_memory :: memoryUsage
  freemem :: nat
  totalmem :: nat

subsection \<open>The queue\<close>

text \<open>
  The state of the \<^verbatim>\<open>PQueue\<close> instance held by the service. The library keeps the
  jobs that wait in its queue class (\<open>items\<close>, whose length is \<^verbatim>\<open>size\<close>) and
  counts the jobs that run separately (\<open>pending\<close>); \<^verbatim>\<open>getMetrics\<close> reports the
  two as \<^verbatim>\<open>queueSize\<close> and \<^verbatim>\<open>pending\<close>. Jobs are opaque closures, named here
  by a number.
\<close>

record pqueue =
  items :: "nat list"
  pending :: nat
  concurrency :: int

datatype queue_error = QueueOverflow

text \<open>\<^verbatim>\<open>super.enqueue(run, options)\<close> of the library's queue class, for jobs added
  without a priority: the job goes to the back of the waiting list.\<close>

definition super_enqueue :: "pqueue \<Rightarrow> nat \<Rightarrow> pqueue" where
  "super_enqueue q run = q\<lparr>items := items q @ [run]\<rparr>"

text \<open>The overriding \<^verbatim>\<open>enqueue\<close> of the \<^verbatim>\<open>queueClass\<close> given to the constructor:
  \<^verbatim>\<open>if (this.size >= MAX_QUEUE_SIZE) throw ...; return super.enqueue(run, options)\<close>.\<close>

definition enqueue :: "pqueue \<Rightarrow> nat \<Rightarrow> queue_error + pqueue" where
  "enqueue q run =
     (if length (items q) \<ge> MAX_QUEUE_SIZE then Inl QueueOverflow
      else Inr (super_enqueue q run))"

text \<open>\<^verbatim>\<open>adjustConcurrency\<close>, run every ten seconds on one memory sample.\<close>

definition adjustConcurrency :: "memoryUsage \<Rightarrow> pqueue \<Rightarrow> pqueue" where
  "adjustConcurrency memUsage q =
     (let usedMemory = totalUsed memUsage in
      if usedMemory > MEMORY_THRESHOLD
        then q\<lparr>concurrency := max MIN_CONCURRENCY (concurrency q - 1)\<rparr>
      else if concurrency q < MAX_CONCURRENCY
        then q\<lparr>concurrency := concurrency q + 1\<rparr>
      else q)"

subsection \<open>The memory gates\<close>

text \<open>
  Both gates poll in a loop that need not end, so each is a partial function: \<open>None\<close>
  is a gate that never returns. The host is a sequence of samples, one per poll; a poll
  that does not return sleeps for \<^verbatim>\<open>setTimeout(res, 1000)\<close> and takes the next sample.
  The result \<open>Some k\<close> is the index of the poll at which the gate returned, so \<open>k\<close> is
  also the number of one-second sleeps taken since poll \<open>0\<close>.
\<close>

text \<open>\<^verbatim>\<open>RegistryService.waitForMemoryAvailability\<close>:
  \<^verbatim>\<open>while (true) { ...; if (totalUsed < MEMORY_THRESHOLD) return; ...; await sleep }\<close>.\<close>

partial_function (option) RegistryService_waitForMemoryAvailability ::
    "(nat \<Rightarrow> hostSample) \<Rightarrow> nat \<Rightarrow> nat option" where
  "RegistryService_waitForMemoryAvailability host k =
     (if totalUsed (process_memory (host k)) < MEMORY_THRESHOLD then Some k
      else RegistryService_waitForMemoryAvailability host (Suc k))"

text \<open>\<^verbatim>\<open>ContainerRegistryClient.waitForMemoryAvailability\<close>:
  \<^verbatim>\<open>while (os.freemem() < this.memoryThreshold) { ...; await sleep }\<close>.\<close>

partial_function (option) ContainerRegistryClient_waitForMemoryAvailability ::
    "nat \<Rightarrow> (nat \<Rightarrow> hostSample) \<Rightarrow> nat \<Rightarrow> nat option" where
  "ContainerRegistryClient_waitForMemoryAvailability memoryThreshold host k =
     (if freemem (host k) < memoryThreshold
        then ContainerRegistryClient_waitForMemoryAvailability memoryThreshold host (Suc k)
      else Some k)"


section \<open>Shared data model\<close>

type_synonym bytes = "8 word list"

text \<open>A JavaScript number that holds an integer, or \<^verbatim>\<open>NaN\<close>. Sizes are far below
  \<open>2 ^ 53\<close>, where the source's doubles are exact.\<close>

datatype jsnum = NaN | Num int

text \<open>\<^verbatim>\<open>parseInt(s, 10)\<close>: leading white space, an optional sign, then the longest run
  of decimal digits; \<^verbatim>\<open>NaN\<close> when there is no digit.\<close>

definition is_space :: "char \<Rightarrow> bool" where
  "is_space c \<longleftrightarrow> (of_char c :: nat) \<in> {9, 10, 11, 12, 13, 32}"

definition is_digit :: "char \<Rightarrow> bool" where
  "is_digit c \<longleftrightarrow> 48 \<le> (of_char c :: nat) \<and> (of_char c :: nat) \<le> 57"

fun digits_value :: "nat \<Rightarrow> string \<Rightarrow> nat" where
  "digits_value acc [] = acc"
| "digits_value acc (c # cs) = digits_value (10 * acc + (of_char c - 48)) cs"

definition parseInt :: "string \<Rightarrow> jsnum" where
  "parseInt s =
     (let t = dropWhile is_space s;
          negative = (case t of c # _ \<Rightarrow> c = CHR ''-'' | [] \<Rightarrow> False);
          u = (case t of c # r \<Rightarrow> if c = CHR ''-'' \<or> c = CHR ''+'' then r else t | [] \<Rightarrow> t);
          ds = takeWhile is_digit u
      in if ds = [] then NaN
         else Num ((if negative then - 1 else 1) * int (digits_value 0 ds)))"

text \<open>\<^verbatim>\<open>parseInt(header || '0', 10)\<close> on a header that may be absent; an empty header is
  falsy as well.\<close>

definition parse_content_length :: "string option \<Rightarrow> jsnum" where
  "parse_content_length h =
     parseInt (case h of None \<Rightarrow> ''0'' | Some v \<Rightarrow> if v = [] then ''0'' else v)"

text \<open>\<^verbatim>\<open>s.includes(sub)\<close>.\<close>

fun str_includes :: "string \<Rightarrow> string \<Rightarrow> bool" where
  "str_includes [] sub = (sub = [])"
| "str_includes (c # cs) sub = (prefix sub (c # cs) \<or> str_includes cs sub)"

text \<open>A descriptor, an image manifest and a manifest list, as the JSON documents the
  registry serves. A manifest's own \<^verbatim>\<open>mediaType\<close> field may be absent.\<close>

record descriptor =
  mediaType :: string
  size_bytes :: jsnum
  digest :: string

record manifest =
  schemaVersion :: int
  manifest_mediaType :: "string option"
  config :: descriptor
  layers :: "descriptor list"

record image_index =
  index_schemaVersion :: int
  index_mediaType :: "string option"
  manifests :: "descriptor list"

text \<open>What a request or a response carries: nothing, blob bytes, one of the two
  documents, or the JSON object of an upload session with its \<^verbatim>\<open>location\<close> field.\<close>

datatype payload =
    NoBody
  | Blob bytes
  | ManifestDoc manifest
  | IndexDoc image_index
  | UploadDoc "string option"

text \<open>The two library functions the writers and the push path call, taken as
  parameters: \<^verbatim>\<open>crypto.createHash('sha256').update(data).digest('hex')\<close> and
  \<^verbatim>\<open>zlib.gzipSync\<close>; and \<^verbatim>\<open>Buffer.from(JSON.stringify(manifest, null, 2))\<close>.\<close>

record codec =
  sha256 :: "bytes \<Rightarrow> string"
  gzipSync :: "bytes \<Rightarrow> bytes"
  stringify :: "manifest \<Rightarrow> bytes"

section \<open>The registry protocol client\<close>

text \<open>
  \<^verbatim>\<open>ContainerRegistryClient\<close> of \<^verbatim>\<open>commons/registry/client.ts\<close>. The network is a
  parameter: a transport answers a request, given the requests sent before it, with a
  response or with nothing (the library call rejects). Header names are lower case, as
  axios delivers them. The client sends through three transports: its axios instance, the
  global axios (for a redirect target, which follows further redirects itself) and undici.
\<close>

datatype http_method = GET | HEAD | POST | PUT

record request =
  req_method :: http_method
  url :: string
  content_length :: "jsnum option"
  sent :: payload

record response =
  status :: nat
  headers :: "string \<Rightarrow> string option"
  data :: payload

type_synonym transport = "request list \<Rightarrow> request \<Rightarrow> response option"

record network =
  axios_instance :: transport
  axios_global :: transport
  undici :: transport
  host :: "nat \<Rightarrow> hostSample"

datatype client_error =
    NetworkError
  | StatusRejected nat
  | MissingRedirectLocation
  | PushBlobFailed nat
  | TypeError

text \<open>The state a run of the client threads: the requests sent so far and the index of
  the next host sample.\<close>

record client_world =
  sent_log :: "request list"
  next_poll :: nat

type_synonym 'a client_io = "client_world \<Rightarrow> ((client_error + 'a) \<times> client_world) option"

text \<open>\<^verbatim>\<open>await\<close> in sequence: a gate that never returns stops everything (\<open>None\<close>), a
  rejected promise skips the rest.\<close>

definition await :: "'a client_io \<Rightarrow> ('a \<Rightarrow> 'b client_io) \<Rightarrow> 'b client_io" where
  "await m f w =
     (case m w of
        None \<Rightarrow> None
      | Some (Inl e, w') \<Rightarrow> Some (Inl e, w')
      | Some (Inr a, w') \<Rightarrow> f a w')"

definition resolve :: "'a \<Rightarrow> 'a client_io" where
  "resolve a w = Some (Inr a, w)"

definition reject :: "client_error \<Rightarrow> 'a client_io" where
  "reject e w = Some (Inl e, w)"

text \<open>A request through one transport: it is logged, and axios rejects when the transport
  fails or \<^verbatim>\<open>validateStatus\<close> refuses the status.\<close>

definition send :: "transport \<Rightarrow> (nat \<Rightarrow> bool) \<Rightarrow> request \<Rightarrow> response client_io" where
  "send net validateStatus req w =
     (let w' = w\<lparr>sent_log := sent_log w @ [req]\<rparr> in
      case net (sent_log w) req of
        None \<Rightarrow> Some (Inl NetworkError, w')
      | Some res \<Rightarrow>
          if validateStatus (status res) then Some (Inr res, w')
          else Some (Inl (StatusRejected (status res)), w'))"

text \<open>axios' default \<^verbatim>\<open>validateStatus\<close>.\<close>

definition status_2xx :: "nat \<Rightarrow> bool" where
  "status_2xx s \<longleftrightarrow> 200 \<le> s \<and> s < 300"

text \<open>The client's gate inside a run: it consumes host samples up to the one at which it
  returned.\<close>

definition waitForMemoryAvailability :: "nat \<Rightarrow> network \<Rightarrow> unit client_io" where
  "waitForMemoryAvailability memoryThreshold net w =
     (case ContainerRegistryClient_waitForMemoryAvailability memoryThreshold (host net) (next_poll w) of
        None \<Rightarrow> None
      | Some k \<Rightarrow> Some (Inr (), w\<lparr>next_poll := Suc k\<rparr>))"

text \<open>\<^verbatim>\<open>getImageManifest\<close>; the caller reads \<^verbatim>\<open>manifest.config.digest\<close>, which throws a
  \<^verbatim>\<open>TypeError\<close> on a document without \<^verbatim>\<open>config\<close>.\<close>

definition getImageManifest :: "network \<Rightarrow> string \<Rightarrow> string \<Rightarrow> payload client_io" where
  "getImageManifest net repository tag =
     await (send (axios_instance net) status_2xx
              \<lparr>req_method = GET, url = ''/v2/'' @ repository @ ''/manifests/'' @ tag,
               content_length = None, sent = NoBody\<rparr>)
       (\<lambda>response. resolve (data response))"

record pulled =
  pulled_stream :: payload
  pulled_digest :: string
  pulled_size :: jsnum

text \<open>\<^verbatim>\<open>pullBlobAsStream\<close>.\<close>

definition pullBlobAsStream :: "nat \<Rightarrow> network \<Rightarrow> string \<Rightarrow> string \<Rightarrow> pulled client_io" where
  "pullBlobAsStream memoryThreshold net repository dgst =
     await (waitForMemoryAvailability memoryThreshold net) (\<lambda>_.
     await (send (axios_instance net) (\<lambda>s. s \<in> {200, 302, 307})
              \<lparr>req_method = GET, url = ''/v2/'' @ repository @ ''/blobs/'' @ dgst,
               content_length = None, sent = NoBody\<rparr>) (\<lambda>response.
     if status response \<in> {302, 307} then
       (case headers response ''location'' of
          None \<Rightarrow> reject MissingRedirectLocation
        | Some location \<Rightarrow>
            if location = [] then reject MissingRedirectLocation
            else
              await (send (axios_global net) status_2xx
                       \<lparr>req_method = GET, url = location, content_length = None, sent = NoBody\<rparr>)
                (\<lambda>redirected. resolve
                   \<lparr>pulled_stream = data redirected, pulled_digest = dgst,
                    pulled_size = parse_content_length (headers redirected ''content-length'')\<rparr>))
     else resolve
       \<lparr>pulled_stream = data response, pulled_digest = dgst,
        pulled_size = parse_content_length (headers response ''content-length'')\<rparr>))"

text \<open>\<^verbatim>\<open>startBlobUpload\<close>: \<^verbatim>\<open>response.data.location || response.headers['location']\<close>,
  which is \<^verbatim>\<open>undefined\<close> (\<open>None\<close>) when neither is there.\<close>

definition startBlobUpload :: "network \<Rightarrow> string \<Rightarrow> string option client_io" where
  "startBlobUpload net repository =
     await (send (axios_instance net) (\<lambda>s. s = 202)
              \<lparr>req_method = POST, url = ''/v2/'' @ repository @ ''/blobs/uploads/'',
               content_length = Some (Num 0), sent = NoBody\<rparr>) (\<lambda>response.
     resolve (case data response of
                UploadDoc (Some l) \<Rightarrow> if l = [] then headers response ''location'' else Some l
              | _ \<Rightarrow> headers response ''location''))"

text \<open>\<^verbatim>\<open>pushBlobStream\<close>; \<^verbatim>\<open>uploadUrl.includes\<close> throws on \<^verbatim>\<open>undefined\<close>, and undici
  does not reject on a status: the source compares it with 201.\<close>

definition pushBlobStream ::
    "nat \<Rightarrow> network \<Rightarrow> string \<Rightarrow> string \<Rightarrow> payload \<Rightarrow> jsnum \<Rightarrow> unit client_io" where
  "pushBlobStream memoryThreshold net repository dgst strm sz =
     await (waitForMemoryAvailability memoryThreshold net) (\<lambda>_.
     await (startBlobUpload net repository) (\<lambda>uploadUrl.
     case uploadUrl of
       None \<Rightarrow> reject TypeError
     | Some uploadUrl \<Rightarrow>
         let finalUrl = uploadUrl @ (if str_includes uploadUrl ''?'' then ''&'' else ''?'')
                          @ ''digest='' @ dgst in
         await (send (undici net) (\<lambda>_. True)
                  \<lparr>req_method = PUT, url = finalUrl, content_length = Some sz, sent = strm\<rparr>)
           (\<lambda>res. if status res \<noteq> 201 then reject (PushBlobFailed (status res))
                  else resolve ())))"

text \<open>The layer loop of \<^verbatim>\<open>ContainerRegistryClient.syncImageWithBuffer\<close>.\<close>

fun syncLayers ::
    "nat \<Rightarrow> network \<Rightarrow> string \<Rightarrow> string \<Rightarrow> descriptor list \<Rightarrow> unit client_io" where
  "syncLayers memoryThreshold net sourceRepo destRepo [] = resolve ()"
| "syncLayers memoryThreshold net sourceRepo destRepo (layer # rest) =
     await (pullBlobAsStream memoryThreshold net sourceRepo (digest layer)) (\<lambda>p.
     await (pushBlobStream memoryThreshold net destRepo (digest layer)
              (pulled_stream p) (pulled_size p)) (\<lambda>_.
     syncLayers memoryThreshold net sourceRepo destRepo rest))"

definition docker_manifest_v2 :: string where
  "docker_manifest_v2 = ''application/vnd.docker.distribution.manifest.v2+json''"

text \<open>\<^verbatim>\<open>ContainerRegistryClient.syncImageWithBuffer\<close>. The manifest it republishes is
  the body of the last request of the log.\<close>

definition ContainerRegistryClient_syncImageWithBuffer ::
    "nat \<Rightarrow> network \<Rightarrow> string \<Rightarrow> string \<Rightarrow> string \<Rightarrow> string \<Rightarrow> unit client_io" where
  "ContainerRegistryClient_syncImageWithBuffer memoryThreshold net sourceRepo sourceTag destRepo destTag =
     await (getImageManifest net sourceRepo sourceTag) (\<lambda>doc.
     case doc of
       ManifestDoc m \<Rightarrow>
         let configDigest = digest (config m) in
         await (pullBlobAsStream memoryThreshold net sourceRepo configDigest) (\<lambda>p.
         let configSize = pulled_size p in
         await (pushBlobStream memoryThreshold net destRepo configDigest (pulled_stream p) configSize) (\<lambda>_.
         await (syncLayers memoryThreshold net sourceRepo destRepo (layers m)) (\<lambda>_.
         let newManifest =
               \<lparr>schemaVersion = 2,
                manifest_mediaType = Some docker_manifest_v2,
                config = \<lparr>mediaType = mediaType (config m), size_bytes = configSize,
                          digest = configDigest\<rparr>,
                layers = map (\<lambda>layer. \<lparr>mediaType = mediaType layer, size_bytes = size_bytes layer,
                                          digest = digest layer\<rparr>) (layers m)\<rparr> in
         await (send (axios_instance net) status_2xx
                  \<lparr>req_method = PUT, url = ''/v2/'' @ destRepo @ ''/manifests/'' @ destTag,
                   content_length = None, sent = ManifestDoc newManifest\<rparr>)
           (\<lambda>_. resolve ()))))
     | _ \<Rightarrow> reject TypeError)"







section \<open>The OCI image-layout writer\<close>

text \<open>
  \<^verbatim>\<open>saveAsOCIImageLayout\<close> of \<^verbatim>\<open>commons/registry/saveImage.ts\<close>. The output directory is
  a map from paths to file contents; directories are not modelled, and a write replaces
  the file of that name. \<^verbatim>\<open>path.join(a, b)\<close> joins with one separator.
\<close>

record index_entry = descriptor +
  annotations :: "(string \<times> string) list"

record oci_index =
  oci_schemaVersion :: int
  oci_manifests :: "index_entry list"

datatype file_content =
    Binary bytes
  | LayoutJson string
  | IndexJson oci_index

type_synonym directory = "string \<Rightarrow> file_content option"

record pulled_image =
  image_config :: bytes
  image_layers :: "bytes list"

record image_meta =
  meta_repository :: string
  meta_tag :: string

definition path_join :: "string \<Rightarrow> string \<Rightarrow> string" where
  "path_join a b = a @ ''/'' @ b"

text \<open>\<^verbatim>\<open>buffer[0] === 0x1f && buffer[1] === 0x8b\<close>; a read past the end is
  \<^verbatim>\<open>undefined\<close>, which equals neither byte.\<close>

definition isProbablyGzip :: "bytes \<Rightarrow> bool" where
  "isProbablyGzip buffer =
     (case buffer of b0 # b1 # _ \<Rightarrow> b0 = 0x1f \<and> b1 = 0x8b | _ \<Rightarrow> False)"

definition oci_layer_tar :: string where
  "oci_layer_tar = ''application/vnd.oci.image.layer.v1.tar''"

definition oci_layer_tar_gzip :: string where
  "oci_layer_tar_gzip = ''application/vnd.oci.image.layer.v1.tar+gzip''"

text \<open>\<^verbatim>\<open>s.endsWith(suffix)\<close>, for reading a media type.\<close>

definition endsWith :: "string \<Rightarrow> string \<Rightarrow> bool" where
  "endsWith s sfx \<longleftrightarrow> length sfx \<le> length s \<and> drop (length s - length sfx) s = sfx"

text \<open>The closure \<^verbatim>\<open>writeBlob\<close>: the file is named by the digest of the data.\<close>

definition writeBlob :: "codec \<Rightarrow> string \<Rightarrow> bytes \<Rightarrow> directory \<Rightarrow> string \<times> directory" where
  "writeBlob cdc blobsDir dat fs =
     (let dgst = sha256 cdc dat in (dgst, fs(path_join blobsDir dgst \<mapsto> Binary dat)))"

text \<open>The body of the layer loop: the bytes to write and the media type to record, from
  \<^verbatim>\<open>useGzip\<close> (\<open>None\<close> is \<^verbatim>\<open>undefined\<close>).\<close>

definition layer_output :: "codec \<Rightarrow> bool option \<Rightarrow> bytes \<Rightarrow> bytes \<times> string" where
  "layer_output cdc useGzip layer =
     (case useGzip of
        None \<Rightarrow>
          (let shouldGzip = \<not> isProbablyGzip layer in
           (if shouldGzip then gzipSync cdc layer else layer,
            if shouldGzip then oci_layer_tar_gzip else oci_layer_tar))
      | Some g \<Rightarrow>
          (if g then gzipSync cdc layer else layer,
           if g then oci_layer_tar_gzip else oci_layer_tar))"

text \<open>The layer loop: per layer, in order, the digest returned by \<^verbatim>\<open>writeBlob\<close>, the
  bytes written and the media type (\<^verbatim>\<open>layerDigests\<close>, \<^verbatim>\<open>outputLayers\<close>,
  \<^verbatim>\<open>mediaTypes\<close>, kept together by position).\<close>

fun writeLayers ::
    "codec \<Rightarrow> string \<Rightarrow> bool option \<Rightarrow> bytes list \<Rightarrow> directory
       \<Rightarrow> (string \<times> bytes \<times> string) list \<times> directory" where
  "writeLayers cdc blobsDir useGzip [] fs = ([], fs)"
| "writeLayers cdc blobsDir useGzip (layer # rest) fs =
     (let (dat, mt) = layer_output cdc useGzip layer;
          (dgst, fs1) = writeBlob cdc blobsDir dat fs;
          (out, fs2) = writeLayers cdc blobsDir useGzip rest fs1
      in ((dgst, dat, mt) # out, fs2))"

text \<open>\<^verbatim>\<open>saveAsOCIImageLayout\<close>. Besides the directory it leaves, the model returns the
  manifest object and the index object it built.\<close>

definition saveAsOCIImageLayout ::
    "codec \<Rightarrow> pulled_image \<Rightarrow> string \<Rightarrow> image_meta \<Rightarrow> bool option \<Rightarrow> directory
       \<Rightarrow> directory \<times> manifest \<times> oci_index" where
  "saveAsOCIImageLayout cdc img outputDir meta useGzip fs0 =
     (let fs1 = fs0(path_join outputDir ''oci-layout'' \<mapsto> LayoutJson ''1.0.0'');
          blobsDir = path_join outputDir ''blobs/sha256'';
          (configDigest, fs2) = writeBlob cdc blobsDir (image_config img) fs1;
          (out, fs3) = writeLayers cdc blobsDir useGzip (image_layers img) fs2;
          mnf = \<lparr>schemaVersion = 2,
                 manifest_mediaType = None,
                 config = \<lparr>mediaType = ''application/vnd.oci.image.config.v1+json'',
                           size_bytes = Num (int (length (image_config img))),
                           digest = ''sha256:'' @ configDigest\<rparr>,
                 layers = map (\<lambda>(dgst, dat, mt).
                            \<lparr>mediaType = mt, size_bytes = Num (int (length dat)),
                             digest = ''sha256:'' @ dgst\<rparr>) out\<rparr>;
          manifestBuf = stringify cdc mnf;
          (manifestDigest, fs4) = writeBlob cdc blobsDir manifestBuf fs3;
          idx = \<lparr>oci_schemaVersion = 2,
                 oci_manifests =
                   [\<lparr>mediaType = ''application/vnd.oci.image.manifest.v1+json'',
                     size_bytes = Num (int (length manifestBuf)),
                     digest = ''sha256:'' @ manifestDigest,
                     annotations = [(''org.opencontainers.image.ref.name'', meta_tag meta)]\<rparr>]\<rparr>
      in (fs4(path_join outputDir ''index.json'' \<mapsto> IndexJson idx), mnf, idx))"

section \<open>The blob transfer orchestrator of the service\<close>

text \<open>
  \<^verbatim>\<open>RegistryService.syncImageWithBuffer\<close> and \<^verbatim>\<open>syncImageWithTarball\<close>
  (\<^verbatim>\<open>services/auth.service.ts\<close>). The clients the factory creates are not part of the
  sources at hand, so their methods are a parameter: given the exchanges so far, the
  registry and the call, the clients answer with a reply; \<open>Threw\<close> is a rejected
  promise. A pulled stream is the bytes it delivers and whether it ends without an error.
\<close>

datatype client_call =
    GetManifest string string
  | PullBlobAsStream string string
  | PushBlobStream string string bytes bool jsnum
  | PutManifest string string manifest
  | StartBlobUpload string
  | RequestPut string nat bytes

datatype client_reply =
    Threw
  | GaveManifest manifest
  | GaveStream bytes bool jsnum
  | Settled
  | GaveUploadUrl string
  | GaveStatus nat

record exchange =
  registry_of :: string
  call_of :: client_call
  reply_of :: client_reply

record service_env =
  clients :: "exchange list \<Rightarrow> string \<Rightarrow> client_call \<Rightarrow> client_reply"
  samples :: "nat \<Rightarrow> hostSample"
  unlink_refused :: "string \<Rightarrow> bool"
  TMP_DIR :: string

record service_world =
  exchanges :: "exchange list"
  sample_index :: nat
  tmp_files :: "string \<Rightarrow> bytes option"
  warnings :: "string list"

datatype service_error =
    Overflow
  | ClientThrew client_call
  | UnexpectedReply
  | StreamError
  | FileMissing
  | PushFromFileFailed nat

type_synonym 'a service_io = "service_world \<Rightarrow> ((service_error + 'a) \<times> service_world) option"

text \<open>The same sequencing as \<open>await\<close>, in the service's world.\<close>

definition await_s :: "'a service_io \<Rightarrow> ('a \<Rightarrow> 'b service_io) \<Rightarrow> 'b service_io" where
  "await_s m f w =
     (case m w of
        None \<Rightarrow> None
      | Some (Inl e, w') \<Rightarrow> Some (Inl e, w')
      | Some (Inr a, w') \<Rightarrow> f a w')"

definition resolve_s :: "'a \<Rightarrow> 'a service_io" where
  "resolve_s a w = Some (Inr a, w)"

definition reject_s :: "service_error \<Rightarrow> 'a service_io" where
  "reject_s e w = Some (Inl e, w)"

text \<open>One call of a client method: the exchange is recorded with its reply.\<close>

definition call_client :: "service_env \<Rightarrow> string \<Rightarrow> client_call \<Rightarrow> client_reply service_io" where
  "call_client env registry c w =
     (let r = clients env (exchanges w) registry c;
          w' = w\<lparr>exchanges := exchanges w @ [\<lparr>registry_of = registry, call_of = c, reply_of = r\<rparr>]\<rparr>
      in if r = Threw then Some (Inl (ClientThrew c), w') else Some (Inr r, w'))"

text \<open>The service's gate inside a job.\<close>

definition service_gate :: "service_env \<Rightarrow> unit service_io" where
  "service_gate env w =
     (case RegistryService_waitForMemoryAvailability (samples env) (sample_index w) of
        None \<Rightarrow> None
      | Some k \<Rightarrow> Some (Inr (), w\<lparr>sample_index := Suc k\<rparr>))"

text \<open>\<^verbatim>\<open>this.queue.add(job)\<close>: the queue class' \<^verbatim>\<open>enqueue\<close> decides admission; an
  admitted job is run to its end.\<close>

definition queue_add :: "pqueue \<Rightarrow> 'a service_io \<Rightarrow> 'a service_io" where
  "queue_add q job =
     (case enqueue q 0 of Inl QueueOverflow \<Rightarrow> reject_s Overflow | Inr _ \<Rightarrow> job)"

definition getManifest :: "service_env \<Rightarrow> string \<Rightarrow> string \<Rightarrow> string \<Rightarrow> manifest service_io" where
  "getManifest env registry repo tag =
     await_s (call_client env registry (GetManifest repo tag))
       (\<lambda>r. case r of GaveManifest m \<Rightarrow> resolve_s m | _ \<Rightarrow> reject_s UnexpectedReply)"

definition pullStream ::
    "service_env \<Rightarrow> string \<Rightarrow> string \<Rightarrow> string \<Rightarrow> (bytes \<times> bool \<times> jsnum) service_io" where
  "pullStream env registry repo dgst =
     await_s (call_client env registry (PullBlobAsStream repo dgst))
       (\<lambda>r. case r of GaveStream bs ok sz \<Rightarrow> resolve_s (bs, ok, sz) | _ \<Rightarrow> reject_s UnexpectedReply)"

definition pushStream ::
    "service_env \<Rightarrow> string \<Rightarrow> string \<Rightarrow> string \<Rightarrow> bytes \<Rightarrow> bool \<Rightarrow> jsnum \<Rightarrow> unit service_io" where
  "pushStream env registry repo dgst bs ok sz =
     await_s (call_client env registry (PushBlobStream repo dgst bs ok sz)) (\<lambda>_. resolve_s ())"

definition putManifest ::
    "service_env \<Rightarrow> string \<Rightarrow> string \<Rightarrow> string \<Rightarrow> manifest \<Rightarrow> unit service_io" where
  "putManifest env registry repo tag m =
     await_s (call_client env registry (PutManifest repo tag m)) (\<lambda>_. resolve_s ())"

text \<open>The layer loop of \<^verbatim>\<open>RegistryService.syncImageWithBuffer\<close>.\<close>

fun bufferLayers ::
    "service_env \<Rightarrow> string \<Rightarrow> string \<Rightarrow> string \<Rightarrow> string \<Rightarrow> descriptor list \<Rightarrow> unit service_io" where
  "bufferLayers env sourceRegistry sourceRepo destRegistry destRepo [] = resolve_s ()"
| "bufferLayers env sourceRegistry sourceRepo destRegistry destRepo (layer # rest) =
     await_s (pullStream env sourceRegistry sourceRepo (digest layer)) (\<lambda>(layerStream, ok, layerSize).
     await_s (pushStream env destRegistry destRepo (digest layer) layerStream ok layerSize) (\<lambda>_.
     bufferLayers env sourceRegistry sourceRepo destRegistry destRepo rest))"

text \<open>\<^verbatim>\<open>RegistryService.syncImageWithBuffer\<close>.\<close>

definition RegistryService_syncImageWithBuffer ::
    "service_env \<Rightarrow> pqueue \<Rightarrow> string \<Rightarrow> string \<Rightarrow> string \<Rightarrow> string \<Rightarrow> string \<Rightarrow> string
       \<Rightarrow> unit service_io" where
  "RegistryService_syncImageWithBuffer env q sourceRegistry sourceRepo sourceTag
       destRegistry destRepo destTag =
     queue_add q
      (await_s (service_gate env) (\<lambda>_.
       await_s (getManifest env sourceRegistry sourceRepo sourceTag) (\<lambda>m.
       let configDigest = digest (config m) in
       await_s (pullStream env sourceRegistry sourceRepo configDigest) (\<lambda>(configStream, ok, configSize).
       await_s (pushStream env destRegistry destRepo configDigest configStream ok configSize) (\<lambda>_.
       await_s (bufferLayers env sourceRegistry sourceRepo destRegistry destRepo (layers m)) (\<lambda>_.
       putManifest env destRegistry destRepo destTag m))))))"

text \<open>\<^verbatim>\<open>digest.replace(':', '_')\<close> replaces the first occurrence only.\<close>

fun replace_first :: "char \<Rightarrow> char \<Rightarrow> string \<Rightarrow> string" where
  "replace_first a b [] = []"
| "replace_first a b (c # cs) = (if c = a then b # cs else c # replace_first a b cs)"

definition blob_path :: "service_env \<Rightarrow> string \<Rightarrow> string" where
  "blob_path env dgst = path_join (TMP_DIR env) (replace_first CHR '':'' CHR ''_'' dgst @ ''.blob'')"

text \<open>\<^verbatim>\<open>downloadBlobToFile\<close>: once the pull has answered, the write stream creates the
  file and the pipeline fills it with what the stream delivers; a stream that breaks
  rejects the pipeline and leaves the file.\<close>

definition downloadBlobToFile ::
    "service_env \<Rightarrow> string \<Rightarrow> string \<Rightarrow> string \<Rightarrow> string \<Rightarrow> unit service_io" where
  "downloadBlobToFile env registry repo dgst filePath =
     await_s (pullStream env registry repo dgst) (\<lambda>(bs, ok, _). \<lambda>w.
       let w' = w\<lparr>tmp_files := (tmp_files w)(filePath \<mapsto> bs)\<rparr>
       in if ok then Some (Inr (), w') else Some (Inl StreamError, w'))"

text \<open>\<^verbatim>\<open>pushBlobFromFile\<close>; \<^verbatim>\<open>fs.statSync\<close> throws on a file that is not there.\<close>

definition pushBlobFromFile ::
    "service_env \<Rightarrow> string \<Rightarrow> string \<Rightarrow> string \<Rightarrow> string \<Rightarrow> unit service_io" where
  "pushBlobFromFile env registry repo dgst filePath =
     await_s (call_client env registry (StartBlobUpload repo)) (\<lambda>r.
     case r of
       GaveUploadUrl uploadUrl \<Rightarrow>
         (let finalUrl = uploadUrl @ (if str_includes uploadUrl ''?'' then ''&'' else ''?'')
                           @ ''digest='' @ dgst in
          (\<lambda>w. case tmp_files w filePath of
                  None \<Rightarrow> Some (Inl FileMissing, w)
                | Some bs \<Rightarrow>
                    await_s (call_client env registry (RequestPut finalUrl (length bs) bs))
                      (\<lambda>res. case res of
                                GaveStatus st \<Rightarrow>
                                  if st \<noteq> 201 then reject_s (PushFromFileFailed st)
                                  else resolve_s ()
                              | _ \<Rightarrow> reject_s UnexpectedReply) w))
     | _ \<Rightarrow> reject_s UnexpectedReply)"

text \<open>An entry of \<^verbatim>\<open>blobs\<close>: \<^verbatim>\<open>{ digest, size, filePath }\<close>.\<close>

record tmp_blob =
  blob_digest :: string
  blob_size :: nat
  filePath :: string

text \<open>The download loop over the layers; its result is the entries pushed to
  \<^verbatim>\<open>blobs\<close>, in order.\<close>

fun downloadLayers ::
    "service_env \<Rightarrow> string \<Rightarrow> string \<Rightarrow> descriptor list \<Rightarrow> tmp_blob list service_io" where
  "downloadLayers env sourceRegistry sourceRepo [] = resolve_s []"
| "downloadLayers env sourceRegistry sourceRepo (layer # rest) =
     (let layerPath = blob_path env (digest layer) in
      await_s (downloadBlobToFile env sourceRegistry sourceRepo (digest layer) layerPath) (\<lambda>_.
      await_s (downloadLayers env sourceRegistry sourceRepo rest) (\<lambda>more.
      resolve_s (\<lparr>blob_digest = digest layer, blob_size = 0, filePath = layerPath\<rparr> # more))))"

fun pushBlobs :: "service_env \<Rightarrow> string \<Rightarrow> string \<Rightarrow> tmp_blob list \<Rightarrow> unit service_io" where
  "pushBlobs env destRegistry destRepo [] = resolve_s ()"
| "pushBlobs env destRegistry destRepo (blob # rest) =
     await_s (pushBlobFromFile env destRegistry destRepo (blob_digest blob) (filePath blob)) (\<lambda>_.
     pushBlobs env destRegistry destRepo rest)"

text \<open>Step 5, the clean-up loop: \<^verbatim>\<open>fs.unlinkSync\<close> inside \<^verbatim>\<open>try\<close>; a failure (no
  such file, or the host refuses) is a warning and the loop goes on.\<close>

fun cleanup :: "service_env \<Rightarrow> tmp_blob list \<Rightarrow> service_world \<Rightarrow> service_world" where
  "cleanup env [] w = w"
| "cleanup env (blob # rest) w =
     cleanup env rest
       (if tmp_files w (filePath blob) = None \<or> unlink_refused env (filePath blob)
        then w\<lparr>warnings := warnings w @ [''[Tarball] Failed to delete temp file: '' @ filePath blob]\<rparr>
        else w\<lparr>tmp_files := (tmp_files w)(filePath blob := None)\<rparr>)"

text \<open>\<^verbatim>\<open>RegistryService.syncImageWithTarball\<close>.\<close>

definition RegistryService_syncImageWithTarball ::
    "service_env \<Rightarrow> pqueue \<Rightarrow> string \<Rightarrow> string \<Rightarrow> string \<Rightarrow> string \<Rightarrow> string \<Rightarrow> string
       \<Rightarrow> unit service_io" where
  "RegistryService_syncImageWithTarball env q sourceRegistry sourceRepo sourceTag
       destRegistry destRepo destTag =
     queue_add q
      (await_s (service_gate env) (\<lambda>_.
       await_s (getManifest env sourceRegistry sourceRepo sourceTag) (\<lambda>m.
       let configDigest = digest (config m);
           configPath = blob_path env configDigest in
       await_s (downloadBlobToFile env sourceRegistry sourceRepo configDigest configPath) (\<lambda>_.
       await_s (downloadLayers env sourceRegistry sourceRepo (layers m)) (\<lambda>more.
       let blobs = \<lparr>blob_digest = configDigest, blob_size = 0, filePath = configPath\<rparr> # more in
       await_s (pushBlobs env destRegistry destRepo blobs) (\<lambda>_.
       await_s (putManifest env destRegistry destRepo destTag m) (\<lambda>_. \<lambda>w.
       Some (Inr (), cleanup env blobs w))))))))"

section \<open>The recursive image copy\<close>

text \<open>
  \<^verbatim>\<open>RegistryCopyService.copyImage\<close> with its helpers (the third version in the copy
  notes). An invocation of \<^verbatim>\<open>copyImage\<close> is named by its position in the tree of
  recursive calls: the top call is \<open>[]\<close>, and the sub-copy for entry \<open>i\<close> of the index
  fetched by invocation \<open>p\<close> is \<open>p @ [i]\<close>. Sub-copies and layer jobs run concurrently in
  the source; what each of them does depends only on the answers it gets, so the
  environment answers by call site (invocation and job) and request, and the trace lists
  the requests of the jobs one job after the other. Every request of the trace carries
  the invocation that issued it. A promise that never settles is \<open>Pending\<close>: that is
  the result when the recursion is cut off by its fuel.
\<close>

record ImageRef =
  registry :: string
  repository :: string
  reference :: string
  token :: string

datatype site = AtManifest | AtLayer nat | AtConfig | AtPublish

datatype copy_request =
    FetchManifest ImageRef
  | HeadBlob ImageRef string
  | DownloadBlob ImageRef string
  | StartUpload ImageRef
  | PutBlob string string payload
  | UploadManifest ImageRef payload string string

type_synonym copy_event = "nat list \<times> copy_request"

text \<open>The environment of a copy: the answer to each request (\<open>None\<close>: the request
  fails), the resident set size read by \<^verbatim>\<open>isMemorySafe\<close>, and \<^verbatim>\<open>new URL(s)\<close> as host
  name and path with query (\<open>None\<close>: it throws).\<close>

record registry_world =
  fetch :: "nat list \<Rightarrow> site \<Rightarrow> copy_request \<Rightarrow> response option"
  rss_sample :: "nat list \<Rightarrow> site \<Rightarrow> nat"
  new_URL :: "string \<Rightarrow> (string \<times> string) option"

datatype copy_error =
    FetchFailed
  | ManifestFetchRejected nat
  | BadJson
  | TypeErr
  | HeadRejected nat
  | UnknownBlobSize
  | BlobTooLarge int
  | MemoryTooHigh
  | DownloadRejected nat
  | MissingUploadLocation
  | InvalidUrl
  | BlobUploadRejected nat
  | ManifestUploadRejected nat

datatype 'a settled = Fulfilled 'a | Rejected copy_error | Pending

type_synonym 'a attempt = "(copy_error + 'a) \<times> copy_event list"

definition MAX_MEMORY_MB :: nat where "MAX_MEMORY_MB = 300"
definition MAX_BLOB_SIZE_BYTES :: int where "MAX_BLOB_SIZE_BYTES = 500 * 1024 * 1024"

text \<open>\<^verbatim>\<open>isMemorySafe\<close>: \<^verbatim>\<open>used.rss / 1024 / 1024 < MAX_MEMORY_MB\<close>, a division by a
  power of two, exact on doubles.\<close>

definition isMemorySafe :: "nat \<Rightarrow> bool" where
  "isMemorySafe rss_now \<longleftrightarrow> rss_now < MAX_MEMORY_MB * 1024 * 1024"

text \<open>\<^verbatim>\<open>await\<close> in sequence, collecting the requests.\<close>

definition then_await :: "'a attempt \<Rightarrow> ('a \<Rightarrow> 'b attempt) \<Rightarrow> 'b attempt" where
  "then_await m f =
     (case m of
        (Inl e, evs) \<Rightarrow> (Inl e, evs)
      | (Inr a, evs) \<Rightarrow> (case f a of (r, evs') \<Rightarrow> (r, evs @ evs')))"

definition do_fetch :: "registry_world \<Rightarrow> nat list \<Rightarrow> site \<Rightarrow> copy_request \<Rightarrow> response attempt" where
  "do_fetch env p st req =
     (case fetch env p st req of
        None \<Rightarrow> (Inl FetchFailed, [(p, req)])
      | Some res \<Rightarrow> (Inr res, [(p, req)]))"

text \<open>\<^verbatim>\<open>checkBlobSize\<close>.\<close>

definition checkBlobSize ::
    "registry_world \<Rightarrow> nat list \<Rightarrow> site \<Rightarrow> ImageRef \<Rightarrow> string \<Rightarrow> int attempt" where
  "checkBlobSize env p st ref dgst =
     then_await (do_fetch env p st (HeadBlob ref dgst)) (\<lambda>res.
       if \<not> status_2xx (status res) then (Inl (HeadRejected (status res)), [])
       else
         (let sz = (case headers res ''content-length'' of
                      None \<Rightarrow> NaN
                    | Some sizeStr \<Rightarrow> if sizeStr = [] then NaN else parseInt sizeStr)
          in case sz of
               NaN \<Rightarrow> (Inl UnknownBlobSize, [])
             | Num n \<Rightarrow>
                 if n > MAX_BLOB_SIZE_BYTES then (Inl (BlobTooLarge n), []) else (Inr n, [])))"

text \<open>\<^verbatim>\<open>fetchManifest\<close>: the document, the \<^verbatim>\<open>Content-Type\<close> and the
  \<^verbatim>\<open>Docker-Content-Digest\<close>; \<^verbatim>\<open>res.json()\<close> rejects on a body that is no JSON
  document.\<close>

definition fetchManifest ::
    "registry_world \<Rightarrow> nat list \<Rightarrow> ImageRef \<Rightarrow> (payload \<times> string \<times> string) attempt" where
  "fetchManifest env p ref =
     then_await (do_fetch env p AtManifest (FetchManifest ref)) (\<lambda>res.
       if \<not> status_2xx (status res) then (Inl (ManifestFetchRejected (status res)), [])
       else
         (let mt = (case headers res ''content-type'' of None \<Rightarrow> [] | Some v \<Rightarrow> v);
              dg = (case headers res ''docker-content-digest'' of None \<Rightarrow> [] | Some v \<Rightarrow> v)
          in case data res of
               NoBody \<Rightarrow> (Inl BadJson, [])
             | Blob bs \<Rightarrow> (Inl BadJson, [])
             | _ \<Rightarrow> (Inr (data res, mt, dg), [])))"

text \<open>\<^verbatim>\<open>downloadBlob\<close>.\<close>

definition downloadBlob ::
    "registry_world \<Rightarrow> nat list \<Rightarrow> site \<Rightarrow> ImageRef \<Rightarrow> string \<Rightarrow> payload attempt" where
  "downloadBlob env p st ref dgst =
     then_await (do_fetch env p st (DownloadBlob ref dgst)) (\<lambda>res.
       if \<not> status_2xx (status res) then (Inl (DownloadRejected (status res)), [])
       else (Inr (data res), []))"

text \<open>\<^verbatim>\<open>uploadViaPipeline\<close>: the status of the session request is not looked at, only
  its \<^verbatim>\<open>Location\<close>; the blob is put through \<^verbatim>\<open>https.request\<close>.\<close>

definition uploadViaPipeline ::
    "registry_world \<Rightarrow> nat list \<Rightarrow> site \<Rightarrow> payload \<Rightarrow> ImageRef \<Rightarrow> string \<Rightarrow> unit attempt" where
  "uploadViaPipeline env p st srcStream ref dgst =
     then_await (do_fetch env p st (StartUpload ref)) (\<lambda>startRes.
       case headers startRes ''location'' of
         None \<Rightarrow> (Inl MissingUploadLocation, [])
       | Some location \<Rightarrow>
           if location = [] then (Inl MissingUploadLocation, [])
           else
             (case new_URL env (location @ ''&digest='' @ dgst) of
                None \<Rightarrow> (Inl InvalidUrl, [])
              | Some (hostname, pathAndSearch) \<Rightarrow>
                  then_await (do_fetch env p st (PutBlob hostname pathAndSearch srcStream)) (\<lambda>res.
                    if status_2xx (status res) then (Inr (), [])
                    else (Inl (BlobUploadRejected (status res)), []))))"

text \<open>\<^verbatim>\<open>uploadManifest\<close>.\<close>

definition uploadManifest ::
    "registry_world \<Rightarrow> nat list \<Rightarrow> ImageRef \<Rightarrow> payload \<Rightarrow> string \<Rightarrow> string \<Rightarrow> unit attempt" where
  "uploadManifest env p ref doc mt rf =
     then_await (do_fetch env p AtPublish (UploadManifest ref doc mt rf)) (\<lambda>res.
       if \<not> status_2xx (status res) then (Inl (ManifestUploadRejected (status res)), [])
       else (Inr (), []))"

text \<open>One blob transfer: the closure given to \<^verbatim>\<open>limit\<close> for a layer, and the same four
  steps written out for the config blob.\<close>

definition copyBlob ::
    "registry_world \<Rightarrow> nat list \<Rightarrow> site \<Rightarrow> ImageRef \<Rightarrow> ImageRef \<Rightarrow> string \<Rightarrow> unit attempt" where
  "copyBlob env p st src dest dgst =
     then_await (checkBlobSize env p st src dgst) (\<lambda>_.
       if \<not> isMemorySafe (rss_sample env p st) then (Inl MemoryTooHigh, [])
       else
         then_await (downloadBlob env p st src dgst) (\<lambda>strm.
           uploadViaPipeline env p st strm dest dgst))"

text \<open>\<^verbatim>\<open>Promise.all\<close>: fulfilled when every promise is, rejected as soon as one is
  (the model reports the first rejection in list order), and pending otherwise.\<close>

fun promise_all :: "unit settled list \<Rightarrow> unit settled" where
  "promise_all [] = Fulfilled ()"
| "promise_all (Rejected e # rs) = Rejected e"
| "promise_all (Fulfilled _ # rs) = promise_all rs"
| "promise_all (Pending # rs) =
     (case promise_all rs of Rejected e \<Rightarrow> Rejected e | _ \<Rightarrow> Pending)"

definition settle :: "copy_error + unit \<Rightarrow> unit settled" where
  "settle r = (case r of Inl e \<Rightarrow> Rejected e | Inr _ \<Rightarrow> Fulfilled ())"

text \<open>\<^verbatim>\<open>manifest.layers.filter(l => !l.mediaType.includes('foreign'))\<close>.\<close>

definition layerBlobs :: "manifest \<Rightarrow> descriptor list" where
  "layerBlobs m = filter (\<lambda>l. \<not> str_includes (mediaType l) ''foreign'') (layers m)"

text \<open>The layer jobs of a concrete manifest, by position in \<^verbatim>\<open>layerBlobs\<close>.\<close>

definition layerJobs ::
    "registry_world \<Rightarrow> nat list \<Rightarrow> ImageRef \<Rightarrow> ImageRef \<Rightarrow> manifest \<Rightarrow> unit attempt list" where
  "layerJobs env p src dest m =
     map (\<lambda>(i, layer). copyBlob env p (AtLayer i) src dest (digest layer))
       (enumerate 0 (layerBlobs m))"

text \<open>The part of \<^verbatim>\<open>copyImage\<close> for a concrete manifest.\<close>

definition copyManifest ::
    "registry_world \<Rightarrow> nat list \<Rightarrow> ImageRef \<Rightarrow> ImageRef \<Rightarrow> manifest \<Rightarrow> string
       \<Rightarrow> unit settled \<times> copy_event list" where
  "copyManifest env p src dest m mt =
     (let jobs = layerJobs env p src dest m;
          evs = concat (map snd jobs)
      in case promise_all (map (settle \<circ> fst) jobs) of
           Rejected e \<Rightarrow> (Rejected e, evs)
         | Pending \<Rightarrow> (Pending, evs)
         | Fulfilled _ \<Rightarrow>
             (case then_await (copyBlob env p AtConfig src dest (digest (config m)))
                     (\<lambda>_. uploadManifest env p dest (ManifestDoc m) mt (reference dest)) of
                (r, evs') \<Rightarrow> (settle r, evs @ evs')))"

text \<open>\<^verbatim>\<open>copyImage\<close>, with fuel for the depth of the recursion.\<close>

fun copyImage ::
    "nat \<Rightarrow> registry_world \<Rightarrow> nat list \<Rightarrow> ImageRef \<Rightarrow> ImageRef \<Rightarrow> unit settled \<times> copy_event list" where
  "copyImage 0 env p src dest = (Pending, [])"
| "copyImage (Suc n) env p src dest =
     (case fetchManifest env p src of
        (Inl e, evs) \<Rightarrow> (Rejected e, evs)
      | (Inr (doc, mt, dg), evs) \<Rightarrow>
          if str_includes mt ''manifest.list'' \<or> str_includes mt ''image.index'' then
            (case doc of
               IndexDoc ix \<Rightarrow>
                 (let subs = map (\<lambda>(i, m). copyImage n env (p @ [i])
                                    (src\<lparr>reference := digest m\<rparr>) (dest\<lparr>reference := digest m\<rparr>))
                              (enumerate 0 (manifests ix));
                      evs1 = evs @ concat (map snd subs)
                  in case promise_all (map fst subs) of
                       Rejected e \<Rightarrow> (Rejected e, evs1)
                     | Pending \<Rightarrow> (Pending, evs1)
                     | Fulfilled _ \<Rightarrow>
                         (case uploadManifest env p dest doc mt (reference dest) of
                            (r, evs2) \<Rightarrow> (settle r, evs1 @ evs2)))
             | _ \<Rightarrow> (Rejected TypeErr, evs))
          else
            (case doc of
               ManifestDoc m \<Rightarrow>
                 (case copyManifest env p src dest m mt of (r, evs1) \<Rightarrow> (r, evs @ evs1))
             | _ \<Rightarrow> (Rejected TypeErr, evs)))"

section \<open>Vocabulary of the properties\<close>

text \<open>\<open>first_poll ok i k\<close>: among the polls from \<open>i\<close> on, \<open>k\<close> is the first whose
  sample satisfies \<open>ok\<close>.\<close>

definition first_poll :: "(nat \<Rightarrow> bool) \<Rightarrow> nat \<Rightarrow> nat \<Rightarrow> bool" where
  "first_poll ok i k \<longleftrightarrow> i \<le> k \<and> ok k \<and> (\<forall>j. i \<le> j \<and> j < k \<longrightarrow> \<not> ok j)"

text \<open>The vocabulary of a content-addressed store. \<open>holds_blob\<close>: under the name
  \<open>hex\<close> the blob directory holds bytes whose digest is \<open>hex\<close>. \<open>describes\<close>: the
  descriptor records the digest and the length of \<open>dat\<close>, and the directory holds a blob
  under that digest. \<open>written_blobs\<close>: the byte strings the writer passes to
  \<^verbatim>\<open>writeBlob\<close> in one run, given the manifest it builds.\<close>

definition holds_blob :: "codec \<Rightarrow> string \<Rightarrow> directory \<Rightarrow> string \<Rightarrow> bool" where
  "holds_blob cdc blobsDir fs hex \<longleftrightarrow>
     (\<exists>dat. fs (path_join blobsDir hex) = Some (Binary dat) \<and> sha256 cdc dat = hex)"

definition describes ::
    "codec \<Rightarrow> string \<Rightarrow> directory \<Rightarrow> 'a descriptor_scheme \<Rightarrow> bytes \<Rightarrow> bool" where
  "describes cdc blobsDir fs d dat \<longleftrightarrow>
     digest d = ''sha256:'' @ sha256 cdc dat \<and>
     size_bytes d = Num (int (length dat)) \<and>
     holds_blob cdc blobsDir fs (sha256 cdc dat)"

definition written_blobs :: "codec \<Rightarrow> pulled_image \<Rightarrow> bool option \<Rightarrow> manifest \<Rightarrow> bytes list" where
  "written_blobs cdc img useGzip m =
     image_config img # map (\<lambda>layer. fst (layer_output cdc useGzip layer)) (image_layers img)
       @ [stringify cdc m]"

text \<open>\<open>stores_exactly\<close>: each byte string of \<open>X\<close> is the content of the file named
  by its digest.\<close>

definition stores_exactly :: "codec \<Rightarrow> string \<Rightarrow> directory \<Rightarrow> bytes set \<Rightarrow> bool" where
  "stores_exactly cdc blobsDir fs X \<longleftrightarrow>
     (\<forall>x \<in> X. fs (path_join blobsDir (sha256 cdc x)) = Some (Binary x))"

text \<open>The vocabulary of the republish order. In the service: an exchange is a failed
  blob transfer when it is a pull that did not give a stream or a push that was rejected,
  and it puts a manifest when its call is \<^verbatim>\<open>putManifest\<close>. In the recursive copy: an
  event publishes for invocation \<open>p\<close> when it is the manifest upload issued by \<open>p\<close>.\<close>

definition transfer_failed :: "exchange \<Rightarrow> bool" where
  "transfer_failed x \<longleftrightarrow>
     (case call_of x of
        PullBlobAsStream repo dgst \<Rightarrow>
          (case reply_of x of GaveStream bs ok sz \<Rightarrow> False | _ \<Rightarrow> True)
      | PushBlobStream repo dgst bs ok sz \<Rightarrow> reply_of x = Threw
      | _ \<Rightarrow> False)"

definition puts_manifest :: "exchange \<Rightarrow> bool" where
  "puts_manifest x \<longleftrightarrow> (case call_of x of PutManifest repo tag m \<Rightarrow> True | _ \<Rightarrow> False)"

definition publishes :: "nat list \<Rightarrow> copy_event \<Rightarrow> bool" where
  "publishes p e \<longleftrightarrow>
     fst e = p \<and> (case snd e of UploadManifest rf doc mt tag \<Rightarrow> True | _ \<Rightarrow> False)"

text \<open>Two invariants of a part of a job, over the exchanges it adds. \<open>transfers_only\<close>:
  it puts no manifest, and when it succeeds none of its transfers has failed.
  \<open>put_guarded\<close>: a manifest put is its last exchange and no failed transfer comes
  before it.\<close>

definition transfers_only :: "'a service_io \<Rightarrow> bool" where
  "transfers_only f \<longleftrightarrow>
     (\<forall>w r w'. f w = Some (r, w') \<longrightarrow>
        (\<exists>new. exchanges w' = exchanges w @ new \<and>
               (\<forall>x \<in> set new. \<not> puts_manifest x) \<and>
               ((\<exists>a. r = Inr a) \<longrightarrow> (\<forall>x \<in> set new. \<not> transfer_failed x))))"

definition put_guarded :: "'a service_io \<Rightarrow> bool" where
  "put_guarded f \<longleftrightarrow>
     (\<forall>w r w'. f w = Some (r, w') \<longrightarrow>
        (\<exists>new. exchanges w' = exchanges w @ new \<and>
               (\<forall>i < length new. puts_manifest (new ! i) \<longrightarrow>
                  Suc i = length new \<and> (\<forall>j < i. \<not> transfer_failed (new ! j)))))"

text \<open>The test \<^verbatim>\<open>copyImage\<close> makes on the content type, and the sub-copies it starts
  for the entries of an index, in the order of the entries.\<close>

definition index_type :: "string \<Rightarrow> bool" where
  "index_type mt \<longleftrightarrow> str_includes mt ''manifest.list'' \<or> str_includes mt ''image.index''"

definition sub_copy ::
    "nat \<Rightarrow> registry_world \<Rightarrow> nat list \<Rightarrow> ImageRef \<Rightarrow> ImageRef \<Rightarrow> image_index \<Rightarrow> nat
       \<Rightarrow> unit settled \<times> copy_event list" where
  "sub_copy n env p src dest ix i =
     copyImage n env (p @ [i]) (src\<lparr>reference := digest (manifests ix ! i)\<rparr>)
       (dest\<lparr>reference := digest (manifests ix ! i)\<rparr>)"

section \<open>Example inputs\<close>

definition GiB :: nat where "GiB = 1024 * 1024 * 1024"

text \<open>A host whose process uses 4 GiB while 8 GiB of 16 GiB are free, and one whose
  process uses 1 GiB.\<close>

definition busy_sample :: hostSample where
  "busy_sample =
     \<lparr>process_memory = \<lparr>rss = 5 * GiB, heapTotal = 4 * GiB, heapUsed = 4 * GiB,
                         external = 0, arrayBuffers = 0\<rparr>,
      freemem = 8 * GiB, totalmem = 16 * GiB\<rparr>"

definition calm_sample :: hostSample where
  "calm_sample =
     \<lparr>process_memory = \<lparr>rss = 2 * GiB, heapTotal = 1 * GiB, heapUsed = 1 * GiB,
                         external = 0, arrayBuffers = 0\<rparr>,
      freemem = 8 * GiB, totalmem = 16 * GiB\<rparr>"


definition calm_host :: "nat \<Rightarrow> hostSample" where
  "calm_host k = calm_sample"



definition idle_queue :: pqueue where
  "idle_queue = \<lparr>items = [], pending = 0, concurrency = 5\<rparr>"

text \<open>A source manifest that declares a config of 1500 bytes and one layer of 3 bytes.\<close>

definition demo_manifest :: manifest where
  "demo_manifest =
     \<lparr>schemaVersion = 2,
      manifest_mediaType = Some docker_manifest_v2,
      config = \<lparr>mediaType = ''application/vnd.docker.container.image.v1+json'',
                size_bytes = Num 1500, digest = ''sha256:aaa''\<rparr>,
      layers = [\<lparr>mediaType = ''application/vnd.docker.image.rootfs.diff.tar.gzip'',
                 size_bytes = Num 3, digest = ''sha256:bbb''\<rparr>]\<rparr>"

text \<open>A registry that serves \<open>demo_manifest\<close> for \<^verbatim>\<open>app:v1\<close>, serves the config blob
  with \<^verbatim>\<open>Content-Length: 1469\<close> and any other blob with \<^verbatim>\<open>Content-Length: 3\<close>, opens
  an upload session on every POST and accepts every PUT.\<close>

definition demo_registry :: transport where
  "demo_registry lg req =
     (case req_method req of
        GET \<Rightarrow>
          if url req = ''/v2/app/manifests/v1''
          then Some \<lparr>status = 200, headers = Map.empty, data = ManifestDoc demo_manifest\<rparr>
          else if url req = ''/v2/app/blobs/sha256:aaa''
          then Some \<lparr>status = 200, headers = [''content-length'' \<mapsto> ''1469''],
                     data = Blob (replicate 1469 0)\<rparr>
          else Some \<lparr>status = 200, headers = [''content-length'' \<mapsto> ''3''],
                     data = Blob [1, 2, 3]\<rparr>
      | POST \<Rightarrow> Some \<lparr>status = 202, headers = [''location'' \<mapsto> ''/v2/mirror/blobs/uploads/1''],
                       data = NoBody\<rparr>
      | PUT \<Rightarrow> Some \<lparr>status = 201, headers = Map.empty, data = NoBody\<rparr>
      | HEAD \<Rightarrow> None)"

text \<open>A registry that answers every request with a 302 that has no \<^verbatim>\<open>Location\<close>.\<close>

definition redirecting_registry :: transport where
  "redirecting_registry lg req = Some \<lparr>status = 302, headers = Map.empty, data = NoBody\<rparr>"

definition demo_network :: network where
  "demo_network =
     \<lparr>axios_instance = demo_registry, axios_global = demo_registry, undici = demo_registry,
      host = calm_host\<rparr>"

definition redirecting_network :: network where
  "redirecting_network =
     \<lparr>axios_instance = redirecting_registry, axios_global = demo_registry,
      undici = demo_registry, host = calm_host\<rparr>"

definition fresh_world :: client_world where
  "fresh_world = \<lparr>sent_log = [], next_poll = 0\<rparr>"

text \<open>Stand-ins for the library functions, for running the model on examples: the
  digest of a blob is a run of the letter a of the blob's length, compression puts the two
  magic bytes in front, and a manifest is serialised to two bytes.\<close>

definition toy_codec :: codec where
  "toy_codec =
     \<lparr>sha256 = (\<lambda>bs. replicate (length bs) CHR ''a''),
      gzipSync = (\<lambda>bs. 0x1f # 0x8b # bs),
      stringify = (\<lambda>m. [0x7b, 0x7d])\<rparr>"



text \<open>Clients for the service: the source serves \<open>demo_manifest\<close> and the config
  blob, every other pull is rejected when \<open>layers_fail\<close> is set; the destination opens
  an upload session and accepts every push.\<close>

definition demo_clients :: "bool \<Rightarrow> exchange list \<Rightarrow> string \<Rightarrow> client_call \<Rightarrow> client_reply" where
  "demo_clients layers_fail hist rgy c =
     (case c of
        GetManifest repo tag \<Rightarrow> GaveManifest demo_manifest
      | PullBlobAsStream repo dgst \<Rightarrow>
          if dgst = ''sha256:aaa'' then GaveStream [1, 2, 3] True (Num 3)
          else if layers_fail then Threw
          else GaveStream [4, 5] True (Num 2)
      | PushBlobStream repo dgst bs ok sz \<Rightarrow> Settled
      | PutManifest repo tag m \<Rightarrow> Settled
      | StartBlobUpload repo \<Rightarrow> GaveUploadUrl ''/v2/mirror/blobs/uploads/1''
      | RequestPut finalUrl len bs \<Rightarrow> GaveStatus 201)"

definition demo_service :: "bool \<Rightarrow> service_env" where
  "demo_service layers_fail =
     \<lparr>clients = demo_clients layers_fail, samples = calm_host,
      unlink_refused = (\<lambda>path. False), TMP_DIR = ''/srv/tmp''\<rparr>"

definition empty_world :: service_world where
  "empty_world = \<lparr>exchanges = [], sample_index = 0, tmp_files = Map.empty, warnings = []\<rparr>"

text \<open>A two-platform image for the recursive copy: the tag \<^verbatim>\<open>latest\<close> is a manifest
  list with two entries, and each entry resolves to \<open>demo_manifest\<close>. The registries of
  \<open>demo_world bad_reference bad_blob\<close> answer every request with success, except that
  the manifest \<open>bad_reference\<close> cannot be fetched and the size probe of the blob
  \<open>bad_blob\<close> answers 404.\<close>

definition manifest_list_v2 :: string where
  "manifest_list_v2 = ''application/vnd.docker.distribution.manifest.list.v2+json''"

definition demo_index :: image_index where
  "demo_index =
     \<lparr>index_schemaVersion = 2,
      index_mediaType = Some manifest_list_v2,
      manifests = [\<lparr>mediaType = docker_manifest_v2, size_bytes = Num 528, digest = ''sha256:amd''\<rparr>,
                   \<lparr>mediaType = docker_manifest_v2, size_bytes = Num 528, digest = ''sha256:arm''\<rparr>]\<rparr>"

definition demo_world :: "string \<Rightarrow> string \<Rightarrow> registry_world" where
  "demo_world bad_reference bad_blob =
     \<lparr>fetch = (\<lambda>p st req.
        case req of
          FetchManifest rf \<Rightarrow>
            if reference rf = bad_reference then None
            else if reference rf = ''latest''
            then Some \<lparr>status = 200, headers = [''content-type'' \<mapsto> manifest_list_v2],
                       data = IndexDoc demo_index\<rparr>
            else Some \<lparr>status = 200, headers = [''content-type'' \<mapsto> docker_manifest_v2],
                       data = ManifestDoc demo_manifest\<rparr>
        | HeadBlob rf dgst \<Rightarrow>
            if dgst = bad_blob then Some \<lparr>status = 404, headers = Map.empty, data = NoBody\<rparr>
            else Some \<lparr>status = 200, headers = [''content-length'' \<mapsto> ''3''], data = NoBody\<rparr>
        | DownloadBlob rf dgst \<Rightarrow>
            Some \<lparr>status = 200, headers = Map.empty, data = Blob [1, 2, 3]\<rparr>
        | StartUpload rf \<Rightarrow>
            Some \<lparr>status = 202, headers = [''location'' \<mapsto> ''https://dst.io/up?s=1''],
                  data = NoBody\<rparr>
        | PutBlob hostname pathAndSearch strm \<Rightarrow>
            Some \<lparr>status = 201, headers = Map.empty, data = NoBody\<rparr>
        | UploadManifest rf doc mt tag \<Rightarrow>
            Some \<lparr>status = 201, headers = Map.empty, data = NoBody\<rparr>),
      rss_sample = (\<lambda>p st. 100 * 1024 * 1024),
      new_URL = (\<lambda>s. Some (''dst.io'', drop 14 s))\<rparr>"

definition src_latest :: ImageRef where
  "src_latest = \<lparr>registry = ''src.io'', repository = ''app'', reference = ''latest'', token = ''s''\<rparr>"

definition dst_latest :: ImageRef where
  "dst_latest = \<lparr>registry = ''dst.io'', repository = ''mirror'', reference = ''latest'', token = ''d''\<rparr>"

section \<open>Properties of the work queue\<close>

subsection \<open>Admission\<close>




subsection \<open>The concurrency controller\<close>

text \<open>
  Claim C6: one adjustment tick, from a concurrency between 1 and 10. When the sampled
  usage exceeds 3 GiB the concurrency goes down by one but not below 1; otherwise it goes
  up by one but not above 10; so it is between 1 and 10 after the tick.
\<close>

theorem adjustConcurrency_stays_in_range:
  assumes "1 \<le> concurrency q" "concurrency q \<le> 10"
  shows "concurrency (adjustConcurrency mem q) =
           (if totalUsed mem > 3 * 1024 * 1024 * 1024 then max 1 (concurrency q - 1)
            else min 10 (concurrency q + 1))
         \<and> 1 \<le> concurrency (adjustConcurrency mem q)
         \<and> concurrency (adjustConcurrency mem q) \<le> 10"
  using assms
  by (simp add: adjustConcurrency_def Let_def MIN_CONCURRENCY_def MAX_CONCURRENCY_def
      MEMORY_THRESHOLD_def)

theorem adjustConcurrency_witness:
  "1 \<le> concurrency idle_queue \<and> concurrency idle_queue \<le> 10 \<and>
   concurrency (adjustConcurrency (process_memory busy_sample) idle_queue) = 4 \<and>
   concurrency (adjustConcurrency (process_memory calm_sample) idle_queue) = 6"
proof -
  have h: "1 \<le> concurrency idle_queue" "concurrency idle_queue \<le> 10"
    by (simp_all add: idle_queue_def)
  from adjustConcurrency_stays_in_range[OF h, of "process_memory busy_sample"]
       adjustConcurrency_stays_in_range[OF h, of "process_memory calm_sample"] h
  show ?thesis
    by (simp add: idle_queue_def busy_sample_def calm_sample_def totalUsed_def GiB_def)
qed

subsection \<open>The memory gates\<close>



lemma first_poll_now:
  assumes "first_poll ok i k" "ok i"
  shows "k = i"
proof (rule ccontr)
  assume "k \<noteq> i"
  with assms(1) have "i \<le> i \<and> i < k" by (simp add: first_poll_def)
  with assms(1) have "\<not> ok i" unfolding first_poll_def by blast
  with assms(2) show False by simp
qed


lemma service_gate_open:
  "totalUsed (process_memory (hs k)) < MEMORY_THRESHOLD \<Longrightarrow>
     RegistryService_waitForMemoryAvailability hs k = Some k"
  by (subst RegistryService_waitForMemoryAvailability.simps) simp

lemma client_gate_open:
  "\<not> freemem (hs k) < thr \<Longrightarrow>
     ContainerRegistryClient_waitForMemoryAvailability thr hs k = Some k"
  by (subst ContainerRegistryClient_waitForMemoryAvailability.simps) simp








section \<open>Properties of the registry protocol client\<close>

subsection \<open>Sequencing\<close>




subsection \<open>A redirect without a target\<close>

text \<open>
  Claim C8: a blob pull whose first response is a 302 or a 307 without a
  \<^verbatim>\<open>Location\<close> header fails with the missing-redirect-location error. The only request
  the pull has sent is the first GET: no request goes to a redirect target, and no stream
  is handed to the caller.
\<close>

theorem pullBlobAsStream_missing_location:
  assumes gate: "ContainerRegistryClient_waitForMemoryAvailability memoryThreshold (host net) (next_poll w) = Some k"
    and answer: "axios_instance net (sent_log w)
        \<lparr>req_method = GET, url = ''/v2/'' @ repo @ ''/blobs/'' @ dgst,
         content_length = None, sent = NoBody\<rparr> = Some res"
    and redirect: "status res = 302 \<or> status res = 307"
    and no_location: "headers res ''location'' = None"
  shows "pullBlobAsStream memoryThreshold net repo dgst w =
           Some (Inl MissingRedirectLocation,
                 w\<lparr>next_poll := Suc k,
                   sent_log := sent_log w @
                     [\<lparr>req_method = GET, url = ''/v2/'' @ repo @ ''/blobs/'' @ dgst,
                       content_length = None, sent = NoBody\<rparr>]\<rparr>)"
  using assms
  by (auto simp: pullBlobAsStream_def await_def waitForMemoryAvailability_def send_def reject_def Let_def)

theorem pullBlobAsStream_missing_location_witness:
  "pullBlobAsStream (3 * GiB) redirecting_network ''app'' ''sha256:aaa'' fresh_world =
     Some (Inl MissingRedirectLocation,
           \<lparr>sent_log = [\<lparr>req_method = GET, url = ''/v2/app/blobs/sha256:aaa'',
                          content_length = None, sent = NoBody\<rparr>],
            next_poll = 1\<rparr>)"
proof -
  have gate: "ContainerRegistryClient_waitForMemoryAvailability (3 * GiB)
      (host redirecting_network) (next_poll fresh_world) = Some 0"
    by (subst ContainerRegistryClient_waitForMemoryAvailability.simps)
       (simp add: redirecting_network_def fresh_world_def calm_host_def calm_sample_def)
  have answer: "axios_instance redirecting_network (sent_log fresh_world)
        \<lparr>req_method = GET, url = ''/v2/'' @ ''app'' @ ''/blobs/'' @ ''sha256:aaa'',
         content_length = None, sent = NoBody\<rparr>
      = Some \<lparr>status = 302, headers = Map.empty, data = NoBody\<rparr>"
    by (simp add: redirecting_network_def redirecting_registry_def)
  from pullBlobAsStream_missing_location[OF gate answer]
  show ?thesis by (simp add: fresh_world_def)
qed


subsection \<open>The manifest republished by the client's buffer-mode sync\<close>

lemma gate_calm [simp]:
  "waitForMemoryAvailability (3 * GiB) demo_network w = Some (Inr (), w\<lparr>next_poll := Suc (next_poll w)\<rparr>)"
  unfolding waitForMemoryAvailability_def
  by (subst ContainerRegistryClient_waitForMemoryAvailability.simps)
     (simp add: demo_network_def calm_host_def calm_sample_def)

lemma demo_network_sel:
  "axios_instance demo_network = demo_registry"
  "axios_global demo_network = demo_registry"
  "undici demo_network = demo_registry"
  by (simp_all add: demo_network_def)

lemma parse_1469: "parseInt ''1469'' = Num 1469"
  by (simp add: parseInt_def is_space_def is_digit_def)

lemma parse_3: "parseInt ''3'' = Num 3"
  by (simp add: parseInt_def is_space_def is_digit_def)

text \<open>
  Claim C1, on \<^verbatim>\<open>ContainerRegistryClient.syncImageWithBuffer\<close>: the source manifest
  declares a config of 1500 bytes, the registry serves the config blob with
  \<^verbatim>\<open>Content-Length: 1469\<close>, every transfer succeeds, and the manifest put at the
  destination records a config size of 1469. The rebuilt manifest takes the config size
  from the pull response, while the digests and the layer sizes are those of the source.
\<close>

theorem syncImageWithBuffer_republishes_pulled_config_size:
  "map_option (\<lambda>(r, w). (r, sent (last (sent_log w))))
     (ContainerRegistryClient_syncImageWithBuffer (3 * GiB) demo_network
        ''app'' ''v1'' ''mirror'' ''v1'' fresh_world)
   = Some (Inr (), ManifestDoc (demo_manifest\<lparr>config := (config demo_manifest)\<lparr>size_bytes := Num 1469\<rparr>\<rparr>))
   \<and> size_bytes (config demo_manifest) = Num 1500"
  by (simp add: ContainerRegistryClient_syncImageWithBuffer_def getImageManifest_def
      pullBlobAsStream_def pushBlobStream_def startBlobUpload_def
      await_def send_def resolve_def reject_def Let_def status_2xx_def
      demo_network_sel
      demo_registry_def demo_manifest_def fresh_world_def parse_content_length_def
      parse_1469 parse_3 docker_manifest_v2_def)


subsection \<open>The manifest built by the push path\<close>









section \<open>Properties of the OCI image-layout writer\<close>

lemma path_join_inject [simp]: "path_join d a = path_join d b \<longleftrightarrow> a = b"
  by (simp add: path_join_def)

lemma blob_path_not_index [simp]:
  "path_join (path_join outputDir ''blobs/sha256'') hex \<noteq> path_join outputDir ''index.json''"
  by (simp add: path_join_def)

lemma writeBlob_digest: "fst (writeBlob cdc blobsDir dat fs) = sha256 cdc dat"
  by (simp add: writeBlob_def Let_def)

lemma writeBlob_fs:
  "snd (writeBlob cdc blobsDir dat fs) = fs(path_join blobsDir (sha256 cdc dat) \<mapsto> Binary dat)"
  by (simp add: writeBlob_def Let_def)

lemma holds_blob_written:
  "holds_blob cdc blobsDir (fs(path_join blobsDir (sha256 cdc dat) \<mapsto> Binary dat)) (sha256 cdc dat)"
  by (simp add: holds_blob_def)

lemma holds_blob_kept:
  assumes "holds_blob cdc blobsDir fs hex"
  shows "holds_blob cdc blobsDir (fs(path_join blobsDir (sha256 cdc dat) \<mapsto> Binary dat)) hex"
  using assms by (auto simp: holds_blob_def)

text \<open>What the layer loop returns and leaves behind.\<close>

lemma writeLayers_out:
  "fst (writeLayers cdc blobsDir useGzip lyrs fs) =
     map (\<lambda>layer. (sha256 cdc (fst (layer_output cdc useGzip layer)),
                   fst (layer_output cdc useGzip layer),
                   snd (layer_output cdc useGzip layer))) lyrs"
  by (induction lyrs arbitrary: fs)
     (simp_all add: Let_def split_beta writeBlob_digest)

lemma writeLayers_changes:
  assumes "snd (writeLayers cdc blobsDir useGzip lyrs fs) path \<noteq> fs path"
  shows "\<exists>dat. path = path_join blobsDir (sha256 cdc dat) \<and>
               snd (writeLayers cdc blobsDir useGzip lyrs fs) path = Some (Binary dat)"
  using assms
proof (induction lyrs arbitrary: fs)
  case Nil
  then show ?case by simp
next
  case (Cons layer rest)
  let ?dat = "fst (layer_output cdc useGzip layer)"
  let ?fs1 = "fs(path_join blobsDir (sha256 cdc ?dat) \<mapsto> Binary ?dat)"
  have step: "snd (writeLayers cdc blobsDir useGzip (layer # rest) fs) =
              snd (writeLayers cdc blobsDir useGzip rest ?fs1)"
    by (simp add: Let_def split_beta writeBlob_fs)
  show ?case
  proof (cases "snd (writeLayers cdc blobsDir useGzip rest ?fs1) path = ?fs1 path")
    case True
    with Cons.prems step have "?fs1 path \<noteq> fs path" by simp
    then have "path = path_join blobsDir (sha256 cdc ?dat)" by (auto split: if_splits)
    with True step show ?thesis by auto
  next
    case False
    from Cons.IH[OF False] show ?thesis unfolding step .
  qed
qed

lemma writeLayers_keeps:
  assumes "holds_blob cdc blobsDir fs hex"
  shows "holds_blob cdc blobsDir (snd (writeLayers cdc blobsDir useGzip lyrs fs)) hex"
  using assms
proof (induction lyrs arbitrary: fs)
  case Nil
  then show ?case by simp
next
  case (Cons layer rest)
  let ?dat = "fst (layer_output cdc useGzip layer)"
  let ?fs1 = "fs(path_join blobsDir (sha256 cdc ?dat) \<mapsto> Binary ?dat)"
  have step: "snd (writeLayers cdc blobsDir useGzip (layer # rest) fs) =
              snd (writeLayers cdc blobsDir useGzip rest ?fs1)"
    by (simp add: Let_def split_beta writeBlob_fs)
  from Cons.prems have "holds_blob cdc blobsDir ?fs1 hex" by (rule holds_blob_kept)
  from Cons.IH[OF this] show ?case unfolding step .
qed

lemma writeLayers_holds:
  assumes "layer \<in> set lyrs"
  shows "holds_blob cdc blobsDir (snd (writeLayers cdc blobsDir useGzip lyrs fs))
           (sha256 cdc (fst (layer_output cdc useGzip layer)))"
  using assms
proof (induction lyrs arbitrary: fs)
  case Nil
  then show ?case by simp
next
  case (Cons l rest)
  let ?dat = "fst (layer_output cdc useGzip l)"
  let ?fs1 = "fs(path_join blobsDir (sha256 cdc ?dat) \<mapsto> Binary ?dat)"
  have step: "snd (writeLayers cdc blobsDir useGzip (l # rest) fs) =
              snd (writeLayers cdc blobsDir useGzip rest ?fs1)"
    by (simp add: Let_def split_beta writeBlob_fs)
  show ?case
  proof (cases "layer = l")
    case True
    have "holds_blob cdc blobsDir ?fs1 (sha256 cdc ?dat)" by (rule holds_blob_written)
    then have "holds_blob cdc blobsDir (snd (writeLayers cdc blobsDir useGzip rest ?fs1))
        (sha256 cdc ?dat)" by (rule writeLayers_keeps)
    then show ?thesis unfolding step True .
  next
    case False
    with Cons.prems have "layer \<in> set rest" by simp
    from Cons.IH[OF this] show ?thesis unfolding step .
  qed
qed

lemma stores_exactly_write:
  assumes "stores_exactly cdc blobsDir fs X" "\<forall>x \<in> X. sha256 cdc x = sha256 cdc dat \<longrightarrow> x = dat"
  shows "stores_exactly cdc blobsDir (fs(path_join blobsDir (sha256 cdc dat) \<mapsto> Binary dat)) (insert dat X)"
  using assms by (auto simp: stores_exactly_def)

lemma stores_exactly_writeLayers:
  assumes "stores_exactly cdc blobsDir fs X"
    and "inj_on (sha256 cdc) (X \<union> (\<lambda>layer. fst (layer_output cdc useGzip layer)) ` set lyrs)"
  shows "stores_exactly cdc blobsDir (snd (writeLayers cdc blobsDir useGzip lyrs fs))
           (X \<union> (\<lambda>layer. fst (layer_output cdc useGzip layer)) ` set lyrs)"
  using assms
proof (induction lyrs arbitrary: fs X)
  case Nil
  then show ?case by simp
next
  case (Cons l rest)
  let ?dat = "fst (layer_output cdc useGzip l)"
  let ?fs1 = "fs(path_join blobsDir (sha256 cdc ?dat) \<mapsto> Binary ?dat)"
  have step: "snd (writeLayers cdc blobsDir useGzip (l # rest) fs) =
              snd (writeLayers cdc blobsDir useGzip rest ?fs1)"
    by (simp add: Let_def split_beta writeBlob_fs)
  have sets: "X \<union> (\<lambda>layer. fst (layer_output cdc useGzip layer)) ` set (l # rest) =
              insert ?dat X \<union> (\<lambda>layer. fst (layer_output cdc useGzip layer)) ` set rest"
    by auto
  from Cons.prems(2) have "\<forall>x \<in> X. sha256 cdc x = sha256 cdc ?dat \<longrightarrow> x = ?dat"
    by (auto simp: inj_on_def)
  from stores_exactly_write[OF Cons.prems(1) this] have e1: "stores_exactly cdc blobsDir ?fs1 (insert ?dat X)" .
  from Cons.prems(2) have "inj_on (sha256 cdc)
      (insert ?dat X \<union> (\<lambda>layer. fst (layer_output cdc useGzip layer)) ` set rest)"
    unfolding sets .
  from Cons.IH[OF e1 this] show ?case unfolding step sets .
qed


lemma saveAsOCIImageLayout_unfold:
  "saveAsOCIImageLayout cdc img outputDir meta useGzip fs0 =
     (let blobsDir = path_join outputDir ''blobs/sha256'';
          fs2 = (fs0(path_join outputDir ''oci-layout'' \<mapsto> LayoutJson ''1.0.0''))
                  (path_join blobsDir (sha256 cdc (image_config img)) \<mapsto> Binary (image_config img));
          fs3 = snd (writeLayers cdc blobsDir useGzip (image_layers img) fs2);
          mnf = \<lparr>schemaVersion = 2,
                 manifest_mediaType = None,
                 config = \<lparr>mediaType = ''application/vnd.oci.image.config.v1+json'',
                           size_bytes = Num (int (length (image_config img))),
                           digest = ''sha256:'' @ sha256 cdc (image_config img)\<rparr>,
                 layers = map (\<lambda>layer.
                            \<lparr>mediaType = snd (layer_output cdc useGzip layer),
                             size_bytes = Num (int (length (fst (layer_output cdc useGzip layer)))),
                             digest = ''sha256:'' @ sha256 cdc (fst (layer_output cdc useGzip layer))\<rparr>)
                          (image_layers img)\<rparr>;
          fs4 = fs3(path_join blobsDir (sha256 cdc (stringify cdc mnf)) \<mapsto> Binary (stringify cdc mnf));
          idx = \<lparr>oci_schemaVersion = 2,
                 oci_manifests =
                   [\<lparr>mediaType = ''application/vnd.oci.image.manifest.v1+json'',
                     size_bytes = Num (int (length (stringify cdc mnf))),
                     digest = ''sha256:'' @ sha256 cdc (stringify cdc mnf),
                     annotations = [(''org.opencontainers.image.ref.name'', meta_tag meta)]\<rparr>]\<rparr>
      in (fs4(path_join outputDir ''index.json'' \<mapsto> IndexJson idx), mnf, idx))"
  by (simp add: saveAsOCIImageLayout_def Let_def split_beta writeBlob_def
      writeLayers_out comp_def)

lemma holds_blob_index:
  assumes "holds_blob cdc (path_join outputDir ''blobs/sha256'') fs hex"
  shows "holds_blob cdc (path_join outputDir ''blobs/sha256'')
           (fs(path_join outputDir ''index.json'' \<mapsto> c)) hex"
  using assms by (simp add: holds_blob_def)

text \<open>
  Claim C9: the directory left by \<^verbatim>\<open>saveAsOCIImageLayout\<close> is a consistent
  content-addressed store. Every file the run changed is the layout file, the index file,
  or a file under \<^verbatim>\<open>blobs/sha256\<close> named by the sha256 of the bytes it holds. The config
  descriptor, each layer descriptor and the manifest entry of the index record the digest
  and the length of the bytes written for them, and the directory holds a blob under that
  digest. Where the blobs written in the run have pairwise different digests, each of
  them is the exact content of the file named by its digest.
\<close>

theorem saveAsOCIImageLayout_content_addressed:
  assumes run: "saveAsOCIImageLayout cdc img outputDir meta useGzip fs0 = (fs, m, idx)"
  shows "(let blobsDir = path_join outputDir ''blobs/sha256'' in
      (\<forall>path. fs path \<noteq> fs0 path \<longrightarrow>
          path = path_join outputDir ''oci-layout'' \<or>
          path = path_join outputDir ''index.json'' \<or>
          (\<exists>dat. path = path_join blobsDir (sha256 cdc dat) \<and> fs path = Some (Binary dat))) \<and>
      describes cdc blobsDir fs (config m) (image_config img) \<and>
      length (layers m) = length (image_layers img) \<and>
      (\<forall>i < length (image_layers img).
          describes cdc blobsDir fs (layers m ! i)
            (fst (layer_output cdc useGzip (image_layers img ! i)))) \<and>
      (\<exists>e. oci_manifests idx = [e] \<and> describes cdc blobsDir fs e (stringify cdc m)) \<and>
      fs (path_join outputDir ''index.json'') = Some (IndexJson idx) \<and>
      (inj_on (sha256 cdc) (set (written_blobs cdc img useGzip m)) \<longrightarrow>
         (\<forall>dat \<in> set (written_blobs cdc img useGzip m).
             fs (path_join blobsDir (sha256 cdc dat)) = Some (Binary dat))))"
proof -
  define blobsDir where "blobsDir = path_join outputDir ''blobs/sha256''"
  define out where "out = (\<lambda>layer. fst (layer_output cdc useGzip layer))"
  define fs1 where "fs1 = fs0(path_join outputDir ''oci-layout'' \<mapsto> LayoutJson ''1.0.0'')"
  define fs2 where
    "fs2 = fs1(path_join blobsDir (sha256 cdc (image_config img)) \<mapsto> Binary (image_config img))"
  define fs3 where "fs3 = snd (writeLayers cdc blobsDir useGzip (image_layers img) fs2)"
  define buf where "buf = stringify cdc m"
  define fs4 where "fs4 = fs3(path_join blobsDir (sha256 cdc buf) \<mapsto> Binary buf)"
  from run have fs: "fs = fs4(path_join outputDir ''index.json'' \<mapsto> IndexJson idx)"
    and m_config: "config m = \<lparr>mediaType = ''application/vnd.oci.image.config.v1+json'',
                           size_bytes = Num (int (length (image_config img))),
                           digest = ''sha256:'' @ sha256 cdc (image_config img)\<rparr>"
    and m_layers: "layers m = map (\<lambda>layer.
                            \<lparr>mediaType = snd (layer_output cdc useGzip layer),
                             size_bytes = Num (int (length (out layer))),
                             digest = ''sha256:'' @ sha256 cdc (out layer)\<rparr>) (image_layers img)"
    and idx: "oci_manifests idx =
                   [\<lparr>mediaType = ''application/vnd.oci.image.manifest.v1+json'',
                     size_bytes = Num (int (length buf)),
                     digest = ''sha256:'' @ sha256 cdc buf,
                     annotations = [(''org.opencontainers.image.ref.name'', meta_tag meta)]\<rparr>]"
    unfolding saveAsOCIImageLayout_unfold Let_def fs4_def fs3_def fs2_def fs1_def blobsDir_def
      buf_def out_def
    by auto

  have changes: "path = path_join outputDir ''oci-layout'' \<or>
          path = path_join outputDir ''index.json'' \<or>
          (\<exists>dat. path = path_join blobsDir (sha256 cdc dat) \<and> fs path = Some (Binary dat))"
    if diff: "fs path \<noteq> fs0 path" for path
  proof (cases "path = path_join outputDir ''index.json''")
    case True
    then show ?thesis by simp
  next
    case not_index: False
    then have at: "fs path = fs4 path" by (simp add: fs)
    show ?thesis
    proof (cases "path = path_join blobsDir (sha256 cdc buf)")
      case True
      with at have "fs path = Some (Binary buf)" by (simp add: fs4_def)
      with True show ?thesis by blast
    next
      case False
      then have at3: "fs4 path = fs3 path" by (simp add: fs4_def)
      show ?thesis
      proof (cases "fs3 path = fs2 path")
        case False
        from writeLayers_changes[OF False[unfolded fs3_def]] at at3
        show ?thesis by (simp add: fs3_def)
      next
        case True
        show ?thesis
        proof (cases "path = path_join blobsDir (sha256 cdc (image_config img))")
          case True
          with \<open>fs3 path = fs2 path\<close> at at3
          have "fs path = Some (Binary (image_config img))" by (simp add: fs2_def)
          with True show ?thesis by blast
        next
          case False
          with \<open>fs3 path = fs2 path\<close> at at3 have "fs path = fs1 path" by (simp add: fs2_def)
          with diff have "fs1 path \<noteq> fs0 path" by simp
          then have "path = path_join outputDir ''oci-layout''"
            by (auto simp: fs1_def split: if_splits)
          then show ?thesis by simp
        qed
      qed
    qed
  qed

  have keep: "holds_blob cdc blobsDir fs hex" if "holds_blob cdc blobsDir fs3 hex" for hex
  proof -
    from that have "holds_blob cdc blobsDir fs4 hex" unfolding fs4_def by (rule holds_blob_kept)
    then show ?thesis unfolding fs blobsDir_def by (rule holds_blob_index)
  qed

  have "holds_blob cdc blobsDir fs2 (sha256 cdc (image_config img))"
    unfolding fs2_def by (rule holds_blob_written)
  then have "holds_blob cdc blobsDir fs3 (sha256 cdc (image_config img))"
    unfolding fs3_def by (rule writeLayers_keeps)
  then have "holds_blob cdc blobsDir fs (sha256 cdc (image_config img))" by (rule keep)
  with m_config have d_config: "describes cdc blobsDir fs (config m) (image_config img)"
    by (simp add: describes_def)

  from m_layers have len: "length (layers m) = length (image_layers img)" by simp

  have d_layers: "describes cdc blobsDir fs (layers m ! i) (out (image_layers img ! i))"
    if i: "i < length (image_layers img)" for i
  proof -
    from i have "image_layers img ! i \<in> set (image_layers img)" by simp
    then have "holds_blob cdc blobsDir fs3 (sha256 cdc (out (image_layers img ! i)))"
      unfolding fs3_def out_def by (rule writeLayers_holds)
    then have "holds_blob cdc blobsDir fs (sha256 cdc (out (image_layers img ! i)))" by (rule keep)
    with i m_layers show ?thesis by (simp add: describes_def)
  qed

  have "holds_blob cdc blobsDir fs4 (sha256 cdc buf)"
    unfolding fs4_def by (rule holds_blob_written)
  then have "holds_blob cdc blobsDir fs (sha256 cdc buf)"
    unfolding fs blobsDir_def by (rule holds_blob_index)
  with idx have d_index: "\<exists>e. oci_manifests idx = [e] \<and> describes cdc blobsDir fs e buf"
    by (simp add: describes_def)

  have index_file: "fs (path_join outputDir ''index.json'') = Some (IndexJson idx)"
    by (simp add: fs)

  have exactness: "fs (path_join blobsDir (sha256 cdc dat)) = Some (Binary dat)"
    if inj: "inj_on (sha256 cdc) (set (written_blobs cdc img useGzip m))"
      and dat: "dat \<in> set (written_blobs cdc img useGzip m)" for dat
  proof -
    have W: "set (written_blobs cdc img useGzip m) =
        insert buf ({image_config img} \<union> out ` set (image_layers img))"
      by (auto simp: written_blobs_def buf_def out_def)
    have "stores_exactly cdc blobsDir fs2 {image_config img}"
      by (simp add: stores_exactly_def fs2_def)
    moreover from inj have "inj_on (sha256 cdc) ({image_config img} \<union> out ` set (image_layers img))"
      unfolding W by (rule inj_on_subset) auto
    ultimately have e3: "stores_exactly cdc blobsDir fs3 ({image_config img} \<union> out ` set (image_layers img))"
      unfolding fs3_def out_def by (rule stores_exactly_writeLayers)
    from inj have "\<forall>x \<in> {image_config img} \<union> out ` set (image_layers img).
        sha256 cdc x = sha256 cdc buf \<longrightarrow> x = buf"
      unfolding W by (auto simp: inj_on_def)
    from stores_exactly_write[OF e3 this]
    have "stores_exactly cdc blobsDir fs4 (insert buf ({image_config img} \<union> out ` set (image_layers img)))"
      unfolding fs4_def .
    with dat have "fs4 (path_join blobsDir (sha256 cdc dat)) = Some (Binary dat)"
      unfolding W stores_exactly_def by blast
    then show ?thesis by (simp add: fs blobsDir_def)
  qed

  from changes d_config len d_layers d_index index_file exactness
  show ?thesis
    unfolding Let_def blobsDir_def[symmetric] buf_def[symmetric] out_def
    by blast
qed


theorem saveAsOCIImageLayout_witness:
  "\<exists>fs m idx.
     saveAsOCIImageLayout toy_codec \<lparr>image_config = [7], image_layers = [[1, 2, 3]]\<rparr>
       ''out'' \<lparr>meta_repository = ''app'', meta_tag = ''v1''\<rparr> None Map.empty = (fs, m, idx) \<and>
     fs ''out/blobs/sha256/aaaaa'' \<noteq> Map.empty ''out/blobs/sha256/aaaaa'' \<and>
     fs ''out/blobs/sha256/aaaaa'' = Some (Binary [0x1f, 0x8b, 1, 2, 3]) \<and>
     (0::nat) < length (image_layers \<lparr>image_config = [7], image_layers = [[1, 2, 3]]\<rparr>) \<and>
     digest (layers m ! 0) = ''sha256:aaaaa'' \<and>
     size_bytes (layers m ! 0) = Num 5 \<and>
     inj_on (sha256 toy_codec) (set (written_blobs toy_codec
        \<lparr>image_config = [7], image_layers = [[1, 2, 3]]\<rparr> None m)) \<and>
     fs ''out/blobs/sha256/a'' = Some (Binary [7])"
proof -
  let ?img = "\<lparr>image_config = [7], image_layers = [[1, 2, 3]]\<rparr> :: pulled_image"
  obtain fs m idx where
    run: "saveAsOCIImageLayout toy_codec ?img ''out''
            \<lparr>meta_repository = ''app'', meta_tag = ''v1''\<rparr> None Map.empty = (fs, m, idx)"
    by (cases "saveAsOCIImageLayout toy_codec ?img ''out''
            \<lparr>meta_repository = ''app'', meta_tag = ''v1''\<rparr> None Map.empty") blast
  note t = saveAsOCIImageLayout_content_addressed[OF run, unfolded Let_def]
  have out0: "fst (layer_output toy_codec None (image_layers ?img ! 0)) = [0x1f, 0x8b, 1, 2, 3]"
    by (simp add: layer_output_def isProbablyGzip_def toy_codec_def Let_def)
  have i: "(0::nat) < length (image_layers ?img)" by simp
  from t i have "describes toy_codec (path_join ''out'' ''blobs/sha256'') fs (layers m ! 0)
      (fst (layer_output toy_codec None (image_layers ?img ! 0)))"
    by blast
  then have d0: "digest (layers m ! 0) = ''sha256:aaaaa''" "size_bytes (layers m ! 0) = Num 5"
    unfolding out0 by (simp_all add: describes_def toy_codec_def)
  have W: "written_blobs toy_codec ?img None m = [[7], [0x1f, 0x8b, 1, 2, 3], [0x7b, 0x7d]]"
    by (simp add: written_blobs_def layer_output_def isProbablyGzip_def toy_codec_def Let_def)
  have inj: "inj_on (sha256 toy_codec) (set (written_blobs toy_codec ?img None m))"
    unfolding W by (simp add: toy_codec_def)
  from t inj have stored: "\<forall>dat \<in> set (written_blobs toy_codec ?img None m).
      fs (path_join (path_join ''out'' ''blobs/sha256'') (sha256 toy_codec dat)) = Some (Binary dat)"
    by blast
  have layer_file: "fs ''out/blobs/sha256/aaaaa'' = Some (Binary [0x1f, 0x8b, 1, 2, 3])"
    using stored[unfolded W, THEN bspec, of "[0x1f, 0x8b, 1, 2, 3]"]
    by (simp add: path_join_def toy_codec_def)
  have config_file: "fs ''out/blobs/sha256/a'' = Some (Binary [7])"
    using stored[unfolded W, THEN bspec, of "[7]"]
    by (simp add: path_join_def toy_codec_def)
  from layer_file have changed: "fs ''out/blobs/sha256/aaaaa'' \<noteq> Map.empty ''out/blobs/sha256/aaaaa''"
    by simp
  from run changed layer_file i d0 inj config_file show ?thesis by blast
qed

subsection \<open>Layers that are compressed already\<close>

lemma layer_output_unset:
  "isProbablyGzip layer \<Longrightarrow> layer_output cdc None layer = (layer, oci_layer_tar)"
  "\<not> isProbablyGzip layer \<Longrightarrow> layer_output cdc None layer = (gzipSync cdc layer, oci_layer_tar_gzip)"
  "endsWith oci_layer_tar_gzip ''+gzip''"
  by (simp_all add: layer_output_def Let_def oci_layer_tar_gzip_def endsWith_def)

text \<open>
  Claim C4, on a layer that begins with the gzip magic bytes, with \<^verbatim>\<open>useGzip\<close> unset:
  the bytes written are the input bytes, and the media type recorded for the layer is
  \<^verbatim>\<open>application/vnd.oci.image.layer.v1.tar\<close>, which does not end in \<^verbatim>\<open>+gzip\<close>.
\<close>

theorem saveAsOCIImageLayout_labels_gzip_layer_as_tar:
  "isProbablyGzip [0x1f, 0x8b, 8] \<and>
   layer_output cdc None [0x1f, 0x8b, 8] = ([0x1f, 0x8b, 8], ''application/vnd.oci.image.layer.v1.tar'') \<and>
   map mediaType (layers (fst (snd (saveAsOCIImageLayout cdc
       \<lparr>image_config = cfg, image_layers = [[0x1f, 0x8b, 8]]\<rparr> outputDir meta None fs0))))
     = [''application/vnd.oci.image.layer.v1.tar''] \<and>
   \<not> endsWith ''application/vnd.oci.image.layer.v1.tar'' ''+gzip''"
  by (simp add: saveAsOCIImageLayout_unfold Let_def layer_output_def isProbablyGzip_def
      oci_layer_tar_def endsWith_def)


section \<open>Properties of the service's orchestrator\<close>

subsection \<open>The examples, evaluated\<close>

lemma service_gate_calm [simp]:
  "service_gate (demo_service b) w = Some (Inr (), w\<lparr>sample_index := Suc (sample_index w)\<rparr>)"
  unfolding service_gate_def
  by (subst RegistryService_waitForMemoryAvailability.simps)
     (simp add: demo_service_def calm_host_def calm_sample_def totalUsed_def
        MEMORY_THRESHOLD_def GiB_def)

lemma demo_service_sel:
  "clients (demo_service b) = demo_clients b"
  "unlink_refused (demo_service b) = (\<lambda>path. False)"
  "TMP_DIR (demo_service b) = ''/srv/tmp''"
  by (simp_all add: demo_service_def)

lemma queue_add_idle [simp]: "queue_add idle_queue job = job"
  by (simp add: queue_add_def enqueue_def idle_queue_def MAX_QUEUE_SIZE_def)

subsection \<open>Temporary files of the tarball mode\<close>

text \<open>
  Claim C3, on a run that fails in the middle: the source serves the manifest and the
  config blob and rejects the pull of the layer. The run ends with that rejection, the
  clean-up loop is not reached, and the temporary file of the config blob is still in the
  temp directory, where there was none before the run.
\<close>

theorem syncImageWithTarball_leaves_temp_file_on_failure:
  "map_option (\<lambda>(r, w). (r, tmp_files w ''/srv/tmp/sha256_aaa.blob'', warnings w))
     (RegistryService_syncImageWithTarball (demo_service True) idle_queue
        ''src.io'' ''app'' ''v1'' ''dst.io'' ''mirror'' ''v1'' empty_world)
   = Some (Inl (ClientThrew (PullBlobAsStream ''app'' ''sha256:bbb'')), Some [1, 2, 3], [])
   \<and> tmp_files empty_world ''/srv/tmp/sha256_aaa.blob'' = None"
  by (simp add: RegistryService_syncImageWithTarball_def getManifest_def downloadBlobToFile_def
      pullStream_def call_client_def await_s_def resolve_s_def reject_s_def Let_def
      demo_service_sel demo_clients_def demo_manifest_def blob_path_def path_join_def
      empty_world_def)

text \<open>The same run with a source that serves the layer as well: every transfer succeeds,
  the clean-up loop runs and both temporary files are gone.\<close>

lemma syncImageWithTarball_cleans_up_after_success:
  "map_option (\<lambda>(r, w). (r, tmp_files w ''/srv/tmp/sha256_aaa.blob'',
                               tmp_files w ''/srv/tmp/sha256_bbb.blob'', warnings w))
     (RegistryService_syncImageWithTarball (demo_service False) idle_queue
        ''src.io'' ''app'' ''v1'' ''dst.io'' ''mirror'' ''v1'' empty_world)
   = Some (Inr (), None, None, [])"
  by (simp add: RegistryService_syncImageWithTarball_def getManifest_def downloadBlobToFile_def
      pushBlobFromFile_def putManifest_def
      pullStream_def call_client_def await_s_def resolve_s_def reject_s_def Let_def
      demo_service_sel demo_clients_def demo_manifest_def blob_path_def path_join_def
      empty_world_def)

subsection \<open>The order of transfers and manifest put in the buffer mode\<close>

lemma await_s_cases:
  assumes "await_s m f w = Some (r, w')"
  obtains (stopped) e where "m w = Some (Inl e, w')" "r = Inl e"
        | (went_on) a w1 where "m w = Some (Inr a, w1)" "f a w1 = Some (r, w')"
  using assms by (auto simp: await_s_def split: option.splits prod.splits sum.splits)

lemma transfers_onlyE:
  assumes "transfers_only f" "f w = Some (r, w')"
  obtains new where "exchanges w' = exchanges w @ new" "\<forall>x \<in> set new. \<not> puts_manifest x"
    "(\<exists>a. r = Inr a) \<longrightarrow> (\<forall>x \<in> set new. \<not> transfer_failed x)"
proof -
  from assms have "\<exists>new. exchanges w' = exchanges w @ new \<and>
               (\<forall>x \<in> set new. \<not> puts_manifest x) \<and>
               ((\<exists>a. r = Inr a) \<longrightarrow> (\<forall>x \<in> set new. \<not> transfer_failed x))"
    unfolding transfers_only_def by (elim allE impE) assumption
  with that show thesis by (elim exE conjE)
qed

lemma put_guardedE:
  assumes "put_guarded f" "f w = Some (r, w')"
  obtains new where "exchanges w' = exchanges w @ new"
    "\<forall>i < length new. puts_manifest (new ! i) \<longrightarrow>
        Suc i = length new \<and> (\<forall>j < i. \<not> transfer_failed (new ! j))"
proof -
  from assms have "\<exists>new. exchanges w' = exchanges w @ new \<and>
               (\<forall>i < length new. puts_manifest (new ! i) \<longrightarrow>
                  Suc i = length new \<and> (\<forall>j < i. \<not> transfer_failed (new ! j)))"
    unfolding put_guarded_def by (elim allE impE) assumption
  with that show thesis by (elim exE conjE)
qed

lemma transfers_only_await:
  assumes m: "transfers_only m" and f: "\<And>a. transfers_only (f a)"
  shows "transfers_only (await_s m f)"
  unfolding transfers_only_def
proof (intro allI impI)
  fix w r w'
  assume run: "await_s m f w = Some (r, w')"
  from run show "\<exists>new. exchanges w' = exchanges w @ new \<and>
               (\<forall>x \<in> set new. \<not> puts_manifest x) \<and>
               ((\<exists>a. r = Inr a) \<longrightarrow> (\<forall>x \<in> set new. \<not> transfer_failed x))"
  proof (cases rule: await_s_cases)
    case (stopped e)
    from m stopped(1) obtain new where
      "exchanges w' = exchanges w @ new" "\<forall>x \<in> set new. \<not> puts_manifest x"
      by (rule transfers_onlyE)
    with stopped(2) show ?thesis by auto
  next
    case (went_on a w1)
    from m went_on(1) obtain new1 where
      n1: "exchanges w1 = exchanges w @ new1" "\<forall>x \<in> set new1. \<not> puts_manifest x"
          "\<forall>x \<in> set new1. \<not> transfer_failed x"
      by (rule transfers_onlyE) auto
    from f[of a] went_on(2) obtain new2 where
      n2: "exchanges w' = exchanges w1 @ new2" "\<forall>x \<in> set new2. \<not> puts_manifest x"
          "(\<exists>a. r = Inr a) \<longrightarrow> (\<forall>x \<in> set new2. \<not> transfer_failed x)"
      by (rule transfers_onlyE)
    from n1 n2 have "exchanges w' = exchanges w @ (new1 @ new2) \<and>
               (\<forall>x \<in> set (new1 @ new2). \<not> puts_manifest x) \<and>
               ((\<exists>a. r = Inr a) \<longrightarrow> (\<forall>x \<in> set (new1 @ new2). \<not> transfer_failed x))"
      by auto
    then show ?thesis by blast
  qed
qed

lemma put_guarded_await:
  assumes m: "transfers_only m" and f: "\<And>a. put_guarded (f a)"
  shows "put_guarded (await_s m f)"
  unfolding put_guarded_def
proof (intro allI impI)
  fix w r w'
  assume run: "await_s m f w = Some (r, w')"
  from run show "\<exists>new. exchanges w' = exchanges w @ new \<and>
               (\<forall>i < length new. puts_manifest (new ! i) \<longrightarrow>
                  Suc i = length new \<and> (\<forall>j < i. \<not> transfer_failed (new ! j)))"
  proof (cases rule: await_s_cases)
    case (stopped e)
    from m stopped(1) obtain new where
      "exchanges w' = exchanges w @ new" "\<forall>x \<in> set new. \<not> puts_manifest x"
      by (rule transfers_onlyE)
    then have "exchanges w' = exchanges w @ new \<and>
               (\<forall>i < length new. puts_manifest (new ! i) \<longrightarrow>
                  Suc i = length new \<and> (\<forall>j < i. \<not> transfer_failed (new ! j)))"
      by simp
    then show ?thesis by blast
  next
    case (went_on a w1)
    from m went_on(1) obtain new1 where
      n1: "exchanges w1 = exchanges w @ new1" "\<forall>x \<in> set new1. \<not> puts_manifest x"
          "\<forall>x \<in> set new1. \<not> transfer_failed x"
      by (rule transfers_onlyE) auto
    from f[of a] went_on(2) obtain new2 where
      n2: "exchanges w' = exchanges w1 @ new2"
          "\<forall>i < length new2. puts_manifest (new2 ! i) \<longrightarrow>
                  Suc i = length new2 \<and> (\<forall>j < i. \<not> transfer_failed (new2 ! j))"
      by (rule put_guardedE)
    have "Suc i = length (new1 @ new2) \<and> (\<forall>j < i. \<not> transfer_failed ((new1 @ new2) ! j))"
      if i: "i < length (new1 @ new2)" and put: "puts_manifest ((new1 @ new2) ! i)" for i
    proof (cases "i < length new1")
      case True
      with put n1(2) show ?thesis by (simp add: nth_append)
    next
      case False
      define k where "k = i - length new1"
      from False i have k: "k < length new2" "i = length new1 + k" by (simp_all add: k_def)
      with put have "puts_manifest (new2 ! k)" by (simp add: nth_append)
      with n2(2) k(1) have last: "Suc k = length new2"
        and before: "\<forall>j < k. \<not> transfer_failed (new2 ! j)" by blast+
      have "\<not> transfer_failed ((new1 @ new2) ! j)" if "j < i" for j
      proof (cases "j < length new1")
        case True
        with n1(3) show ?thesis by (simp add: nth_append)
      next
        case False
        with that k(2) have "j - length new1 < k" by simp
        with before False show ?thesis by (simp add: nth_append)
      qed
      with last k(2) show ?thesis by simp
    qed
    with n1(1) n2(1) have "exchanges w' = exchanges w @ (new1 @ new2) \<and>
               (\<forall>i < length (new1 @ new2). puts_manifest ((new1 @ new2) ! i) \<longrightarrow>
                  Suc i = length (new1 @ new2) \<and>
                  (\<forall>j < i. \<not> transfer_failed ((new1 @ new2) ! j)))"
      by simp
    then show ?thesis by blast
  qed
qed

lemma transfers_only_resolve: "transfers_only (resolve_s a)"
  by (simp add: transfers_only_def resolve_s_def)

lemma transfers_only_reject: "transfers_only (reject_s e)"
  by (simp add: transfers_only_def reject_s_def)

lemma transfers_only_gate: "transfers_only (service_gate env)"
  by (auto simp: transfers_only_def service_gate_def split: option.splits)

lemma transfers_only_getManifest: "transfers_only (getManifest env rgy repo tag)"
  by (auto simp: transfers_only_def getManifest_def await_s_def call_client_def Let_def
      resolve_s_def reject_s_def puts_manifest_def transfer_failed_def
      split: client_reply.splits if_splits)

lemma transfers_only_pullStream: "transfers_only (pullStream env rgy repo dgst)"
  by (auto simp: transfers_only_def pullStream_def await_s_def call_client_def Let_def
      resolve_s_def reject_s_def puts_manifest_def transfer_failed_def
      split: client_reply.splits if_splits)

lemma transfers_only_pushStream: "transfers_only (pushStream env rgy repo dgst bs ok sz)"
  by (auto simp: transfers_only_def pushStream_def await_s_def call_client_def Let_def
      resolve_s_def reject_s_def puts_manifest_def transfer_failed_def
      split: client_reply.splits if_splits)

lemma transfers_only_bufferLayers:
  "transfers_only (bufferLayers env sourceRegistry sourceRepo destRegistry destRepo lyrs)"
proof (induction lyrs)
  case Nil
  show ?case by (simp add: transfers_only_resolve)
next
  case (Cons layer rest)
  show ?case
    unfolding bufferLayers.simps
    by (intro transfers_only_await transfers_only_pullStream)
       (auto simp: split_beta intro!: transfers_only_await transfers_only_pushStream Cons.IH)
qed

lemma put_guarded_putManifest: "put_guarded (putManifest env rgy repo tag m)"
  by (auto simp: put_guarded_def putManifest_def await_s_def call_client_def Let_def
      resolve_s_def split: if_splits)

lemma put_guarded_reject: "put_guarded (reject_s e)"
  by (simp add: put_guarded_def reject_s_def)

lemma put_guarded_queue_add: "put_guarded job \<Longrightarrow> put_guarded (queue_add q job)"
  by (auto simp: queue_add_def put_guarded_reject split: sum.splits queue_error.splits)

lemma put_guarded_syncImageWithBuffer:
  "put_guarded (RegistryService_syncImageWithBuffer env q sourceRegistry sourceRepo sourceTag
       destRegistry destRepo destTag)"
  unfolding RegistryService_syncImageWithBuffer_def Let_def
  by (intro put_guarded_queue_add put_guarded_await transfers_only_gate
        transfers_only_getManifest transfers_only_pullStream)
     (auto simp: split_beta intro!: put_guarded_await transfers_only_pushStream
        transfers_only_bufferLayers put_guarded_putManifest)

lemma put_not_transfer: "puts_manifest x \<Longrightarrow> \<not> transfer_failed x"
  by (auto simp: puts_manifest_def transfer_failed_def split: client_call.splits)

lemma syncImageWithBuffer_put_after_transfers:
  assumes "RegistryService_syncImageWithBuffer env q sourceRegistry sourceRepo sourceTag
       destRegistry destRepo destTag w = Some (r, w')"
  shows "\<exists>new. exchanges w' = exchanges w @ new \<and>
           ((\<exists>x \<in> set new. transfer_failed x) \<longrightarrow> (\<forall>y \<in> set new. \<not> puts_manifest y)) \<and>
           (\<forall>i < length new. puts_manifest (new ! i) \<longrightarrow> Suc i = length new)"
proof -
  from put_guarded_syncImageWithBuffer assms obtain new where
    new: "exchanges w' = exchanges w @ new"
    and g: "\<forall>i < length new. puts_manifest (new ! i) \<longrightarrow>
                  Suc i = length new \<and> (\<forall>j < i. \<not> transfer_failed (new ! j))"
    by (rule put_guardedE)
  have "\<not> puts_manifest y" if x: "x \<in> set new" "transfer_failed x" and y: "y \<in> set new" for x y
  proof
    assume py: "puts_manifest y"
    from y obtain i where i: "i < length new" "new ! i = y" by (auto simp: in_set_conv_nth)
    from x obtain j where j: "j < length new" "new ! j = x" by (auto simp: in_set_conv_nth)
    from g i py have last: "Suc i = length new" and before: "\<forall>j < i. \<not> transfer_failed (new ! j)"
      by auto
    from put_not_transfer[OF py] x(2) i j have "j \<noteq> i" by auto
    with last j(1) have "j < i" by simp
    with before j x(2) show False by blast
  qed
  with new g show ?thesis by blast
qed

section \<open>Properties of the recursive copy\<close>

subsection \<open>The requests of the helpers\<close>

lemma then_await_events:
  assumes "e \<in> set (snd (then_await m f))"
  shows "e \<in> set (snd m) \<or> (\<exists>a. fst m = Inr a \<and> e \<in> set (snd (f a)))"
proof (cases m)
  case (Pair r evs)
  show ?thesis
  proof (cases r)
    case (Inl err)
    with Pair assms show ?thesis by (simp add: then_await_def)
  next
    case (Inr a)
    with Pair assms show ?thesis
      by (cases "f a") (auto simp: then_await_def)
  qed
qed

lemma do_fetch_events: "snd (do_fetch env p st req) = [(p, req)]"
  by (simp add: do_fetch_def split: option.splits)

lemma fetchManifest_events: "snd (fetchManifest env p rf) = [(p, FetchManifest rf)]"
  by (auto simp: fetchManifest_def then_await_def do_fetch_def Let_def
      split: option.splits payload.splits)

lemma uploadManifest_events:
  "snd (uploadManifest env p rf doc mt tag) = [(p, UploadManifest rf doc mt tag)]"
  by (auto simp: uploadManifest_def then_await_def do_fetch_def split: option.splits)

lemma checkBlobSize_events: "snd (checkBlobSize env p st rf dgst) = [(p, HeadBlob rf dgst)]"
  by (auto simp: checkBlobSize_def then_await_def do_fetch_def Let_def
      split: option.splits jsnum.splits)

lemma downloadBlob_events: "snd (downloadBlob env p st rf dgst) = [(p, DownloadBlob rf dgst)]"
  by (auto simp: downloadBlob_def then_await_def do_fetch_def split: option.splits)

lemma uploadViaPipeline_events:
  assumes "e \<in> set (snd (uploadViaPipeline env p st strm rf dgst))"
  shows "e = (p, StartUpload rf) \<or> (\<exists>h ps. e = (p, PutBlob h ps strm))"
  using assms
  by (auto simp: uploadViaPipeline_def then_await_def do_fetch_def
      split: option.splits if_splits prod.splits)

lemma copyBlob_events:
  assumes "e \<in> set (snd (copyBlob env p st src dest dgst))"
  shows "fst e = p \<and> (\<forall>q. \<not> publishes q e)"
proof -
  from assms[unfolded copyBlob_def, THEN then_await_events]
  have "e = (p, HeadBlob src dgst) \<or>
      (isMemorySafe (rss_sample env p st) \<and>
       e \<in> set (snd (then_await (downloadBlob env p st src dgst)
                        (\<lambda>strm. uploadViaPipeline env p st strm dest dgst))))"
    by (auto simp: checkBlobSize_events split: if_splits)
  then have "e = (p, HeadBlob src dgst) \<or> e = (p, DownloadBlob src dgst) \<or>
      (\<exists>strm. e \<in> set (snd (uploadViaPipeline env p st strm dest dgst)))"
    by (auto simp: downloadBlob_events dest!: then_await_events)
  then show ?thesis
    by (auto simp: publishes_def dest!: uploadViaPipeline_events)
qed

lemma layerJobs_events:
  assumes "job \<in> set (layerJobs env p src dest m)" "e \<in> set (snd job)"
  shows "fst e = p \<and> (\<forall>q. \<not> publishes q e)"
  using assms by (auto simp: layerJobs_def dest: copyBlob_events)

lemma promise_all_Fulfilled:
  "promise_all rs = Fulfilled u \<Longrightarrow> r \<in> set rs \<Longrightarrow> r = Fulfilled ()"
  by (induction rs rule: promise_all.induct) (auto split: settled.splits)

lemma settle_Fulfilled: "settle r = Fulfilled u \<longleftrightarrow> r = Inr ()"
  by (cases r) (simp_all add: settle_def)

text \<open>A concrete manifest: the trace ends with the manifest upload exactly when every
  layer job and the config transfer succeeded.\<close>

lemma copyManifest_trace:
  "(\<exists>evs. snd (copyManifest env p src dest m mt) =
            evs @ [(p, UploadManifest dest (ManifestDoc m) mt (reference dest))] \<and>
          (\<forall>e \<in> set evs. fst e = p \<and> (\<forall>q. \<not> publishes q e)) \<and>
          (\<forall>job \<in> set (layerJobs env p src dest m). fst job = Inr ()) \<and>
          fst (copyBlob env p AtConfig src dest (digest (config m))) = Inr ())
   \<or> ((\<forall>e \<in> set (snd (copyManifest env p src dest m mt)). fst e = p \<and> (\<forall>q. \<not> publishes q e)) \<and>
       fst (copyManifest env p src dest m mt) \<noteq> Fulfilled ())"
proof -
  let ?jobs = "layerJobs env p src dest m"
  let ?evs = "concat (map snd ?jobs)"
  let ?put = "(p, UploadManifest dest (ManifestDoc m) mt (reference dest))"
  have jev: "\<forall>e \<in> set ?evs. fst e = p \<and> (\<forall>q. \<not> publishes q e)"
    using layerJobs_events[of _ env p src dest m] by auto
  show ?thesis
  proof (cases "promise_all (map (settle \<circ> fst) ?jobs)")
    case (Fulfilled u)
    have jobs_ok: "\<forall>job \<in> set ?jobs. fst job = Inr ()"
    proof
      fix job assume "job \<in> set ?jobs"
      then have "settle (fst job) \<in> set (map (settle \<circ> fst) ?jobs)" by auto
      from promise_all_Fulfilled[OF Fulfilled this] show "fst job = Inr ()"
        by (simp add: settle_Fulfilled)
    qed
    obtain r cevs where cfg: "copyBlob env p AtConfig src dest (digest (config m)) = (r, cevs)"
      by (cases "copyBlob env p AtConfig src dest (digest (config m))")
    have cev: "\<forall>e \<in> set cevs. fst e = p \<and> (\<forall>q. \<not> publishes q e)"
      using copyBlob_events[of _ env p AtConfig src dest "digest (config m)"] cfg by auto
    show ?thesis
    proof (cases r)
      case (Inl err)
      with cfg Fulfilled have
        "copyManifest env p src dest m mt = (Rejected err, ?evs @ cevs)"
        by (simp add: copyManifest_def Let_def then_await_def settle_def)
      with jev cev show ?thesis by auto
    next
      case (Inr u')
      obtain r' where up: "uploadManifest env p dest (ManifestDoc m) mt (reference dest) = (r', [?put])"
        using uploadManifest_events[of env p dest "ManifestDoc m" mt "reference dest"]
        by (cases "uploadManifest env p dest (ManifestDoc m) mt (reference dest)") auto
      with Inr cfg Fulfilled have
        "snd (copyManifest env p src dest m mt) = (?evs @ cevs) @ [?put]"
        by (simp add: copyManifest_def Let_def then_await_def)
      moreover from jev cev have "\<forall>e \<in> set (?evs @ cevs). fst e = p \<and> (\<forall>q. \<not> publishes q e)"
        by auto
      moreover from cfg Inr have "fst (copyBlob env p AtConfig src dest (digest (config m))) = Inr ()"
        by simp
      ultimately show ?thesis using jobs_ok by blast
    qed
  next
    case (Rejected err)
    then have "copyManifest env p src dest m mt = (Rejected err, ?evs)"
      by (simp add: copyManifest_def Let_def)
    with jev show ?thesis by auto
  next
    case Pending
    then have "copyManifest env p src dest m mt = (Pending, ?evs)"
      by (simp add: copyManifest_def Let_def)
    with jev show ?thesis by auto
  qed
qed

subsection \<open>The shape of a copy\<close>

lemma sub_copies_map:
  "map (\<lambda>(i, m). copyImage n env (p @ [i]) (src\<lparr>reference := digest m\<rparr>)
                   (dest\<lparr>reference := digest m\<rparr>)) (enumerate 0 (manifests ix))
   = map (sub_copy n env p src dest ix) [0..<length (manifests ix)]"
  by (rule nth_equalityI) (simp_all add: sub_copy_def nth_enumerate_eq)

lemma copyImage_fetch_rejected:
  assumes "fst (fetchManifest env p src) = Inl err"
  shows "copyImage (Suc n) env p src dest = (Rejected err, [(p, FetchManifest src)])"
  using assms fetchManifest_events[of env p src]
  by (cases "fetchManifest env p src") auto

lemma copyImage_index:
  assumes "fst (fetchManifest env p src) = Inr (IndexDoc ix, mt, dg)" "index_type mt"
  shows "copyImage (Suc n) env p src dest =
    (let subs = map (sub_copy n env p src dest ix) [0..<length (manifests ix)];
         evs1 = (p, FetchManifest src) # concat (map snd subs)
     in case promise_all (map fst subs) of
          Rejected e \<Rightarrow> (Rejected e, evs1)
        | Pending \<Rightarrow> (Pending, evs1)
        | Fulfilled _ \<Rightarrow>
            (settle (fst (uploadManifest env p dest (IndexDoc ix) mt (reference dest))),
             evs1 @ [(p, UploadManifest dest (IndexDoc ix) mt (reference dest))]))"
proof -
  from assms(1) fetchManifest_events[of env p src]
  have f: "fetchManifest env p src = (Inr (IndexDoc ix, mt, dg), [(p, FetchManifest src)])"
    by (cases "fetchManifest env p src") auto
  obtain r where up: "uploadManifest env p dest (IndexDoc ix) mt (reference dest) =
      (r, [(p, UploadManifest dest (IndexDoc ix) mt (reference dest))])"
    using uploadManifest_events[of env p dest "IndexDoc ix" mt "reference dest"]
    by (cases "uploadManifest env p dest (IndexDoc ix) mt (reference dest)") auto
  from assms(2) have it: "str_includes mt ''manifest.list'' \<or> str_includes mt ''image.index''"
    by (simp add: index_type_def)
  show ?thesis
    unfolding copyImage.simps f using it
    by (simp add: sub_copies_map Let_def up split: settled.splits)
qed

lemma copyImage_concrete:
  assumes "fst (fetchManifest env p src) = Inr (ManifestDoc m, mt, dg)" "\<not> index_type mt"
  shows "copyImage (Suc n) env p src dest =
    (fst (copyManifest env p src dest m mt),
     (p, FetchManifest src) # snd (copyManifest env p src dest m mt))"
proof -
  from assms(1) fetchManifest_events[of env p src]
  have f: "fetchManifest env p src = (Inr (ManifestDoc m, mt, dg), [(p, FetchManifest src)])"
    by (cases "fetchManifest env p src") auto
  from assms(2) have it: "\<not> (str_includes mt ''manifest.list'' \<or> str_includes mt ''image.index'')"
    by (simp add: index_type_def)
  show ?thesis
    unfolding copyImage.simps f using it
    by (simp add: split_beta)
qed

lemma copyImage_type_error:
  assumes "fst (fetchManifest env p src) = Inr (doc, mt, dg)"
    and "index_type mt \<longrightarrow> (\<forall>ix. doc \<noteq> IndexDoc ix)"
    and "\<not> index_type mt \<longrightarrow> (\<forall>m. doc \<noteq> ManifestDoc m)"
  shows "copyImage (Suc n) env p src dest = (Rejected TypeErr, [(p, FetchManifest src)])"
proof -
  from assms(1) fetchManifest_events[of env p src]
  have f: "fetchManifest env p src = (Inr (doc, mt, dg), [(p, FetchManifest src)])"
    by (cases "fetchManifest env p src") auto
  show ?thesis
    unfolding copyImage.simps f using assms(2,3)
    by (cases doc) (auto simp: index_type_def)
qed

lemma copyManifest_paths:
  "e \<in> set (snd (copyManifest env p src dest m mt)) \<Longrightarrow> fst e = p"
  using copyManifest_trace[of env p src dest m mt] by auto

lemma copyImage_paths:
  "e \<in> set (snd (copyImage n env p src dest)) \<Longrightarrow> prefix p (fst e)"
proof (induction n arbitrary: p src dest e)
  case 0
  then show ?case by simp
next
  case (Suc n)
  show ?case
  proof (cases "fst (fetchManifest env p src)")
    case (Inl err)
    from Suc.prems show ?thesis unfolding copyImage_fetch_rejected[OF Inl] by simp
  next
    case (Inr triple)
    obtain doc mt dg where triple: "triple = (doc, mt, dg)" by (cases triple)
    note f = Inr[unfolded triple]
    consider (index) ix where "index_type mt" "doc = IndexDoc ix"
      | (concrete) m where "\<not> index_type mt" "doc = ManifestDoc m"
      | (other) "index_type mt \<longrightarrow> (\<forall>ix. doc \<noteq> IndexDoc ix)"
                "\<not> index_type mt \<longrightarrow> (\<forall>m. doc \<noteq> ManifestDoc m)"
      by blast
    then show ?thesis
    proof cases
      case index
      from Suc.prems[unfolded copyImage_index[OF f[unfolded index(2)] index(1)] Let_def]
      have "e = (p, FetchManifest src) \<or>
            e = (p, UploadManifest dest (IndexDoc ix) mt (reference dest)) \<or>
            (\<exists>i. e \<in> set (snd (sub_copy n env p src dest ix i)))"
        by (auto split: settled.splits)
      then show ?thesis
      proof (elim disjE exE)
        fix i assume "e \<in> set (snd (sub_copy n env p src dest ix i))"
        then have "prefix (p @ [i]) (fst e)" unfolding sub_copy_def by (rule Suc.IH)
        then show ?thesis by (rule append_prefixD)
      qed simp_all
    next
      case concrete
      from Suc.prems[unfolded copyImage_concrete[OF f[unfolded concrete(2)] concrete(1)]]
      show ?thesis by (auto dest: copyManifest_paths)
    next
      case other
      from Suc.prems[unfolded copyImage_type_error[OF f other]] show ?thesis by simp
    qed
  qed
qed

lemma sub_copy_quiet:
  assumes "e \<in> set (snd (sub_copy n env p src dest ix i))"
  shows "\<not> publishes p e"
proof
  assume "publishes p e"
  then have "fst e = p" by (simp add: publishes_def)
  moreover from assms have "prefix (p @ [i]) (fst e)"
    unfolding sub_copy_def by (rule copyImage_paths)
  ultimately show False by (auto simp: prefix_def)
qed

lemma fetch_event_quiet: "\<not> publishes q (p, FetchManifest src)"
  by (simp add: publishes_def)

lemma publish_event: "publishes p (p, UploadManifest rf doc mt tag)"
  by (simp add: publishes_def)

lemma layerJobs_nth:
  assumes "i < length (layerBlobs m)"
  shows "layerJobs env p src dest m ! i =
           copyBlob env p (AtLayer i) src dest (digest (layerBlobs m ! i))"
    and "i < length (layerJobs env p src dest m)"
  using assms by (simp_all add: layerJobs_def nth_enumerate_eq)

lemma copyImage_concrete_job_fails:
  assumes f: "fst (fetchManifest env p src) = Inr (ManifestDoc m, mt, dg)" and c: "\<not> index_type mt"
    and fails: "(\<exists>i < length (layerBlobs m).
                  fst (copyBlob env p (AtLayer i) src dest (digest (layerBlobs m ! i))) \<noteq> Inr ())
              \<or> fst (copyBlob env p AtConfig src dest (digest (config m))) \<noteq> Inr ()"
  shows "\<forall>e \<in> set (snd (copyImage (Suc n) env p src dest)). \<not> publishes p e"
proof -
  from fails have "\<not> ((\<forall>job \<in> set (layerJobs env p src dest m). fst job = Inr ()) \<and>
          fst (copyBlob env p AtConfig src dest (digest (config m))) = Inr ())"
  proof (elim disjE exE conjE)
    fix i assume i: "i < length (layerBlobs m)"
      and bad: "fst (copyBlob env p (AtLayer i) src dest (digest (layerBlobs m ! i))) \<noteq> Inr ()"
    from layerJobs_nth[OF i, of env p src dest]
    have "copyBlob env p (AtLayer i) src dest (digest (layerBlobs m ! i))
            \<in> set (layerJobs env p src dest m)"
      by (metis nth_mem)
    with bad show ?thesis by blast
  qed simp
  with copyManifest_trace[of env p src dest m mt]
  have "\<forall>e \<in> set (snd (copyManifest env p src dest m mt)). \<forall>q. \<not> publishes q e"
    by blast
  then show ?thesis
    unfolding copyImage_concrete[OF f c] by (simp add: fetch_event_quiet)
qed

lemma copyImage_index_child_fails:
  assumes f: "fst (fetchManifest env p src) = Inr (IndexDoc ix, mt, dg)" and c: "index_type mt"
    and i: "i < length (manifests ix)"
    and bad: "fst (sub_copy n env p src dest ix i) \<noteq> Fulfilled ()"
  shows "\<forall>e \<in> set (snd (copyImage (Suc n) env p src dest)). \<not> publishes p e"
proof -
  let ?subs = "map (sub_copy n env p src dest ix) [0..<length (manifests ix)]"
  have "promise_all (map fst ?subs) \<noteq> Fulfilled u" for u
  proof
    assume all: "promise_all (map fst ?subs) = Fulfilled u"
    from i have "fst (sub_copy n env p src dest ix i) \<in> set (map fst ?subs)" by simp
    from promise_all_Fulfilled[OF all this] bad show False by simp
  qed
  then have "snd (copyImage (Suc n) env p src dest) =
      (p, FetchManifest src) # concat (map snd ?subs)"
    unfolding copyImage_index[OF f c] Let_def by (simp split: settled.splits)
  then show ?thesis
    by (auto simp: fetch_event_quiet dest: sub_copy_quiet)
qed

lemma copyImage_publish_last:
  assumes e: "e \<in> set (snd (copyImage n env p src dest))" and pub: "publishes p e"
  shows "\<exists>evs doc mt dg. fst (fetchManifest env p src) = Inr (doc, mt, dg) \<and>
           e = (p, UploadManifest dest doc mt (reference dest)) \<and>
           snd (copyImage n env p src dest) = evs @ [e] \<and>
           (\<forall>e' \<in> set evs. \<not> publishes p e')"
proof (cases n)
  case 0
  with e show ?thesis by simp
next
  case (Suc k)
  show ?thesis
  proof (cases "fst (fetchManifest env p src)")
    case (Inl err)
    from e pub show ?thesis
      unfolding Suc copyImage_fetch_rejected[OF Inl] by (simp add: fetch_event_quiet)
  next
    case (Inr triple)
    obtain doc mt dg where triple: "triple = (doc, mt, dg)" by (cases triple)
    note f = Inr[unfolded triple]
    consider (index) ix where "index_type mt" "doc = IndexDoc ix"
      | (concrete) m where "\<not> index_type mt" "doc = ManifestDoc m"
      | (other) "index_type mt \<longrightarrow> (\<forall>ix. doc \<noteq> IndexDoc ix)"
                "\<not> index_type mt \<longrightarrow> (\<forall>m. doc \<noteq> ManifestDoc m)"
      by blast
    then show ?thesis
    proof cases
      case index
      let ?subs = "map (sub_copy k env p src dest ix) [0..<length (manifests ix)]"
      let ?evs1 = "(p, FetchManifest src) # concat (map snd ?subs)"
      have quiet: "\<forall>e' \<in> set ?evs1. \<not> publishes p e'"
        by (auto simp: fetch_event_quiet dest: sub_copy_quiet)
      note eq = copyImage_index[OF f[unfolded index(2)] index(1), of k dest, unfolded Let_def]
      show ?thesis
      proof (cases "promise_all (map fst ?subs)")
        case (Fulfilled u)
        with eq have tr: "snd (copyImage (Suc k) env p src dest) =
            ?evs1 @ [(p, UploadManifest dest (IndexDoc ix) mt (reference dest))]"
          by simp
        with e pub quiet have "e = (p, UploadManifest dest (IndexDoc ix) mt (reference dest))"
          unfolding Suc by auto
        with tr quiet f index(2) show ?thesis unfolding Suc by blast
      next
        case (Rejected err)
        with eq have "snd (copyImage (Suc k) env p src dest) = ?evs1" by simp
        with e pub quiet show ?thesis unfolding Suc by auto
      next
        case Pending
        with eq have "snd (copyImage (Suc k) env p src dest) = ?evs1" by simp
        with e pub quiet show ?thesis unfolding Suc by auto
      qed
    next
      case concrete
      note eq = copyImage_concrete[OF f[unfolded concrete(2)] concrete(1), of k dest]
      from copyManifest_trace[of env p src dest m mt]
      show ?thesis
      proof (elim disjE exE conjE)
        fix evs
        assume tr: "snd (copyManifest env p src dest m mt) =
            evs @ [(p, UploadManifest dest (ManifestDoc m) mt (reference dest))]"
          and q: "\<forall>e \<in> set evs. fst e = p \<and> (\<forall>q. \<not> publishes q e)"
        from eq tr have whole: "snd (copyImage (Suc k) env p src dest) =
            ((p, FetchManifest src) # evs) @ [(p, UploadManifest dest (ManifestDoc m) mt (reference dest))]"
          by simp
        from q have quiet: "\<forall>e' \<in> set ((p, FetchManifest src) # evs). \<not> publishes p e'"
          by (simp add: fetch_event_quiet)
        with e pub whole have "e = (p, UploadManifest dest (ManifestDoc m) mt (reference dest))"
          unfolding Suc by auto
        with whole quiet f concrete(2) show ?thesis unfolding Suc by blast
      next
        assume "\<forall>e \<in> set (snd (copyManifest env p src dest m mt)). fst e = p \<and> (\<forall>q. \<not> publishes q e)"
        with e pub eq show ?thesis unfolding Suc by (auto simp: fetch_event_quiet)
      qed
    next
      case other
      from e pub show ?thesis
        unfolding Suc copyImage_type_error[OF f other] by (simp add: fetch_event_quiet)
    qed
  qed
qed

subsection \<open>The examples, evaluated\<close>

lemma not_index_docker_v2: "\<not> index_type docker_manifest_v2"
  by (simp add: index_type_def docker_manifest_v2_def)

lemma index_list_v2: "index_type manifest_list_v2"
  by (simp add: index_type_def manifest_list_v2_def)

lemma demo_layerBlobs:
  "layerBlobs demo_manifest =
     [\<lparr>mediaType = ''application/vnd.docker.image.rootfs.diff.tar.gzip'',
       size_bytes = Num 3, digest = ''sha256:bbb''\<rparr>]"
  by (simp add: layerBlobs_def demo_manifest_def)

lemma parse_3': "parseInt ''3'' = Num 3"
  by (simp add: parseInt_def is_space_def is_digit_def)

lemma demo_fetch_manifest:
  "rf \<noteq> bad \<Longrightarrow> rf \<noteq> ''latest'' \<Longrightarrow>
   fst (fetchManifest (demo_world bad blob) p (src_latest\<lparr>reference := rf\<rparr>))
     = Inr (ManifestDoc demo_manifest, docker_manifest_v2, [])"
  by (simp add: fetchManifest_def then_await_def do_fetch_def demo_world_def status_2xx_def
      src_latest_def Let_def)

lemma demo_fetch_index:
  "bad \<noteq> ''latest'' \<Longrightarrow>
   fst (fetchManifest (demo_world bad blob) p src_latest)
     = Inr (IndexDoc demo_index, manifest_list_v2, [])"
  by (simp add: fetchManifest_def then_await_def do_fetch_def demo_world_def status_2xx_def
      src_latest_def Let_def)

lemma demo_fetch_bad:
  "fst (fetchManifest (demo_world bad blob) p (src_latest\<lparr>reference := bad\<rparr>)) = Inl FetchFailed"
  by (simp add: fetchManifest_def then_await_def do_fetch_def demo_world_def src_latest_def)

lemma demo_copyBlob_bad:
  "fst (copyBlob (demo_world bad blob) p st src dest blob) = Inl (HeadRejected 404)"
  by (simp add: copyBlob_def checkBlobSize_def then_await_def do_fetch_def demo_world_def
      status_2xx_def)

lemma demo_copyBlob_good:
  "dgst \<noteq> blob \<Longrightarrow> fst (copyBlob (demo_world bad blob) p st src dest dgst) = Inr ()"
  by (simp add: copyBlob_def checkBlobSize_def downloadBlob_def uploadViaPipeline_def
      then_await_def do_fetch_def demo_world_def status_2xx_def isMemorySafe_def
      MAX_MEMORY_MB_def MAX_BLOB_SIZE_BYTES_def parse_3' Let_def)

lemma promise_all_all_fulfilled:
  "\<forall>r \<in> set rs. r = Fulfilled () \<Longrightarrow> promise_all rs = Fulfilled ()"
  by (induction rs) simp_all

lemma copyManifest_fulfilled:
  assumes jobs: "\<forall>job \<in> set (layerJobs env p src dest m). fst job = Inr ()"
    and cfg: "fst (copyBlob env p AtConfig src dest (digest (config m))) = Inr ()"
    and up: "fst (uploadManifest env p dest (ManifestDoc m) mt (reference dest)) = Inr ()"
  shows "fst (copyManifest env p src dest m mt) = Fulfilled ()"
proof -
  from jobs have "promise_all (map (settle \<circ> fst) (layerJobs env p src dest m)) = Fulfilled ()"
    by (intro promise_all_all_fulfilled) (auto simp: settle_def)
  moreover obtain cevs where "copyBlob env p AtConfig src dest (digest (config m)) = (Inr (), cevs)"
    using cfg by (cases "copyBlob env p AtConfig src dest (digest (config m))") auto
  moreover obtain uevs where
    "uploadManifest env p dest (ManifestDoc m) mt (reference dest) = (Inr (), uevs)"
    using up by (cases "uploadManifest env p dest (ManifestDoc m) mt (reference dest)") auto
  ultimately show ?thesis
    by (simp add: copyManifest_def Let_def then_await_def settle_def)
qed

lemma copyImage_index_all_fulfilled:
  assumes f: "fst (fetchManifest env p src) = Inr (IndexDoc ix, mt, dg)" and c: "index_type mt"
    and all: "\<forall>i < length (manifests ix). fst (sub_copy n env p src dest ix i) = Fulfilled ()"
  shows "snd (copyImage (Suc n) env p src dest) =
           ((p, FetchManifest src) #
              concat (map snd (map (sub_copy n env p src dest ix) [0..<length (manifests ix)])))
           @ [(p, UploadManifest dest (IndexDoc ix) mt (reference dest))]"
proof -
  from all have "promise_all (map fst (map (sub_copy n env p src dest ix)
      [0..<length (manifests ix)])) = Fulfilled ()"
    by (intro promise_all_all_fulfilled) auto
  then show ?thesis
    unfolding copyImage_index[OF f c] Let_def by simp
qed

lemma demo_uploadManifest:
  "fst (uploadManifest (demo_world bad blob) p dest doc mt tag) = Inr ()"
  by (simp add: uploadManifest_def then_await_def do_fetch_def demo_world_def status_2xx_def)

lemma demo_child_fulfilled:
  assumes "rf \<noteq> ''latest''" "rf \<noteq> []"
  shows "fst (copyImage (Suc n) (demo_world [] []) p (src_latest\<lparr>reference := rf\<rparr>) dest) = Fulfilled ()"
proof -
  from assms have f: "fst (fetchManifest (demo_world [] []) p (src_latest\<lparr>reference := rf\<rparr>))
     = Inr (ManifestDoc demo_manifest, docker_manifest_v2, [])"
    by (intro demo_fetch_manifest) simp_all
  have jobs: "\<forall>job \<in> set (layerJobs (demo_world [] []) p (src_latest\<lparr>reference := rf\<rparr>) dest demo_manifest).
      fst job = Inr ()"
    by (simp add: layerJobs_def demo_layerBlobs demo_copyBlob_good)
  have cfg: "fst (copyBlob (demo_world [] []) p AtConfig (src_latest\<lparr>reference := rf\<rparr>) dest
      (digest (config demo_manifest))) = Inr ()"
    by (rule demo_copyBlob_good) (simp add: demo_manifest_def)
  from copyManifest_fulfilled[OF jobs cfg demo_uploadManifest]
  show ?thesis
    unfolding copyImage_concrete[OF f not_index_docker_v2] by simp
qed

subsection \<open>No manifest is republished after a failed transfer\<close>

text \<open>
  Claim C2, in four parts.
  \<^item> A run of \<^verbatim>\<open>RegistryService.syncImageWithBuffer\<close>: if one of the blob transfers it
    made has failed (a pull that gave no stream, a push that was rejected), it has made no
    \<^verbatim>\<open>putManifest\<close> call; and a \<^verbatim>\<open>putManifest\<close> call, when there is one, is the last
    call of the run.
  \<^item> An invocation \<open>p\<close> of \<^verbatim>\<open>copyImage\<close> on a concrete manifest: if the transfer of one
    of its layers that are not foreign, or of its config blob, fails, the trace holds no
    manifest upload issued by \<open>p\<close>.
  \<^item> An invocation \<open>p\<close> on an index: if the copy of one of its entries is not
    fulfilled, the trace holds no manifest upload issued by \<open>p\<close>.
  \<^item> In every trace, a manifest upload issued by \<open>p\<close> is the last event, after the
    events of all layer jobs and of all sub-copies, there is no other one issued by \<open>p\<close>,
    and it carries the document and the content type that \<open>p\<close> fetched.
\<close>

theorem manifest_put_only_after_all_transfers:
  "(RegistryService_syncImageWithBuffer senv q sourceRegistry sourceRepo sourceTag
        destRegistry destRepo destTag w = Some (r, w') \<longrightarrow>
      (\<exists>new. exchanges w' = exchanges w @ new \<and>
             ((\<exists>x \<in> set new. transfer_failed x) \<longrightarrow> (\<forall>y \<in> set new. \<not> puts_manifest y)) \<and>
             (\<forall>i < length new. puts_manifest (new ! i) \<longrightarrow> Suc i = length new)))
   \<and> (fst (fetchManifest env p src) = Inr (ManifestDoc m, mt, dg) \<and> \<not> index_type mt \<and>
        ((\<exists>i < length (layerBlobs m).
            fst (copyBlob env p (AtLayer i) src dest (digest (layerBlobs m ! i))) \<noteq> Inr ())
         \<or> fst (copyBlob env p AtConfig src dest (digest (config m))) \<noteq> Inr ()) \<longrightarrow>
      (\<forall>e \<in> set (snd (copyImage (Suc n) env p src dest)). \<not> publishes p e))
   \<and> (fst (fetchManifest env p src) = Inr (IndexDoc ix, mt, dg) \<and> index_type mt \<and>
        j < length (manifests ix) \<and>
        fst (copyImage n env (p @ [j]) (src\<lparr>reference := digest (manifests ix ! j)\<rparr>)
               (dest\<lparr>reference := digest (manifests ix ! j)\<rparr>)) \<noteq> Fulfilled () \<longrightarrow>
      (\<forall>e \<in> set (snd (copyImage (Suc n) env p src dest)). \<not> publishes p e))
   \<and> (e \<in> set (snd (copyImage k env p src dest)) \<and> publishes p e \<longrightarrow>
      (\<exists>evs doc mt' dg'. fst (fetchManifest env p src) = Inr (doc, mt', dg') \<and>
           e = (p, UploadManifest dest doc mt' (reference dest)) \<and>
           snd (copyImage k env p src dest) = evs @ [e] \<and>
           (\<forall>e' \<in> set evs. \<not> publishes p e')))"
proof (intro conjI impI)
  assume "RegistryService_syncImageWithBuffer senv q sourceRegistry sourceRepo sourceTag
        destRegistry destRepo destTag w = Some (r, w')"
  then show "\<exists>new. exchanges w' = exchanges w @ new \<and>
             ((\<exists>x \<in> set new. transfer_failed x) \<longrightarrow> (\<forall>y \<in> set new. \<not> puts_manifest y)) \<and>
             (\<forall>i < length new. puts_manifest (new ! i) \<longrightarrow> Suc i = length new)"
    by (rule syncImageWithBuffer_put_after_transfers)
next
  assume "fst (fetchManifest env p src) = Inr (ManifestDoc m, mt, dg) \<and> \<not> index_type mt \<and>
        ((\<exists>i < length (layerBlobs m).
            fst (copyBlob env p (AtLayer i) src dest (digest (layerBlobs m ! i))) \<noteq> Inr ())
         \<or> fst (copyBlob env p AtConfig src dest (digest (config m))) \<noteq> Inr ())"
  then show "\<forall>e \<in> set (snd (copyImage (Suc n) env p src dest)). \<not> publishes p e"
    using copyImage_concrete_job_fails by blast
next
  assume "fst (fetchManifest env p src) = Inr (IndexDoc ix, mt, dg) \<and> index_type mt \<and>
        j < length (manifests ix) \<and>
        fst (copyImage n env (p @ [j]) (src\<lparr>reference := digest (manifests ix ! j)\<rparr>)
               (dest\<lparr>reference := digest (manifests ix ! j)\<rparr>)) \<noteq> Fulfilled ()"
  then show "\<forall>e \<in> set (snd (copyImage (Suc n) env p src dest)). \<not> publishes p e"
    using copyImage_index_child_fails[of env p src ix mt dg j n dest]
    by (simp add: sub_copy_def)
next
  assume "e \<in> set (snd (copyImage k env p src dest)) \<and> publishes p e"
  then show "\<exists>evs doc mt' dg'. fst (fetchManifest env p src) = Inr (doc, mt', dg') \<and>
           e = (p, UploadManifest dest doc mt' (reference dest)) \<and>
           snd (copyImage k env p src dest) = evs @ [e] \<and>
           (\<forall>e' \<in> set evs. \<not> publishes p e')"
    using copyImage_publish_last by blast
qed

theorem manifest_put_witness:
  "(\<exists>r w'. RegistryService_syncImageWithBuffer (demo_service True) idle_queue
              ''src.io'' ''app'' ''v1'' ''dst.io'' ''mirror'' ''v1'' empty_world = Some (r, w') \<and>
            (\<exists>x \<in> set (exchanges w'). transfer_failed x) \<and>
            (\<forall>y \<in> set (exchanges w'). \<not> puts_manifest y))
   \<and> (fst (fetchManifest (demo_world [] ''sha256:bbb'') [] (src_latest\<lparr>reference := ''sha256:amd''\<rparr>))
         = Inr (ManifestDoc demo_manifest, docker_manifest_v2, []) \<and>
       \<not> index_type docker_manifest_v2 \<and>
       (0::nat) < length (layerBlobs demo_manifest) \<and>
       fst (copyBlob (demo_world [] ''sha256:bbb'') [] (AtLayer 0)
              (src_latest\<lparr>reference := ''sha256:amd''\<rparr>) (dst_latest\<lparr>reference := ''sha256:amd''\<rparr>)
              (digest (layerBlobs demo_manifest ! 0))) \<noteq> Inr () \<and>
       \<not> (\<exists>e \<in> set (snd (copyImage (Suc 0) (demo_world [] ''sha256:bbb'') []
              (src_latest\<lparr>reference := ''sha256:amd''\<rparr>) (dst_latest\<lparr>reference := ''sha256:amd''\<rparr>))).
          publishes [] e))
   \<and> (fst (fetchManifest (demo_world ''sha256:arm'' []) [] src_latest)
         = Inr (IndexDoc demo_index, manifest_list_v2, []) \<and>
       index_type manifest_list_v2 \<and>
       (1::nat) < length (manifests demo_index) \<and>
       fst (copyImage (Suc 0) (demo_world ''sha256:arm'' []) ([] @ [1])
              (src_latest\<lparr>reference := digest (manifests demo_index ! 1)\<rparr>)
              (dst_latest\<lparr>reference := digest (manifests demo_index ! 1)\<rparr>)) \<noteq> Fulfilled () \<and>
       \<not> (\<exists>e \<in> set (snd (copyImage (Suc (Suc 0)) (demo_world ''sha256:arm'' []) [] src_latest dst_latest)).
          publishes [] e))
   \<and> (([], UploadManifest dst_latest (IndexDoc demo_index) manifest_list_v2 ''latest'')
         \<in> set (snd (copyImage (Suc (Suc 0)) (demo_world [] []) [] src_latest dst_latest)) \<and>
       publishes [] ([], UploadManifest dst_latest (IndexDoc demo_index) manifest_list_v2 ''latest'') \<and>
       (\<exists>evs. snd (copyImage (Suc (Suc 0)) (demo_world [] []) [] src_latest dst_latest)
                = evs @ [([], UploadManifest dst_latest (IndexDoc demo_index) manifest_list_v2 ''latest'')] \<and>
              (\<forall>e' \<in> set evs. \<not> publishes [] e')))"
proof -
  note T = manifest_put_only_after_all_transfers
  \<comment> \<open>the service, with a layer pull that is rejected\<close>
  have "\<exists>r w'. RegistryService_syncImageWithBuffer (demo_service True) idle_queue
              ''src.io'' ''app'' ''v1'' ''dst.io'' ''mirror'' ''v1'' empty_world = Some (r, w') \<and>
            (\<exists>x \<in> set (exchanges w'). transfer_failed x)"
    by (simp add: RegistryService_syncImageWithBuffer_def getManifest_def pullStream_def
        pushStream_def call_client_def await_s_def resolve_s_def reject_s_def Let_def
        demo_service_sel demo_clients_def demo_manifest_def empty_world_def transfer_failed_def)
  then obtain r w' where
    run: "RegistryService_syncImageWithBuffer (demo_service True) idle_queue
              ''src.io'' ''app'' ''v1'' ''dst.io'' ''mirror'' ''v1'' empty_world = Some (r, w')"
    and failed: "\<exists>x \<in> set (exchanges w'). transfer_failed x"
    by (elim exE conjE)
  from T[THEN conjunct1, THEN mp, OF run]
  obtain new where new: "exchanges w' = exchanges empty_world @ new"
    and guard: "(\<exists>x \<in> set new. transfer_failed x) \<longrightarrow> (\<forall>y \<in> set new. \<not> puts_manifest y)"
    by (elim exE conjE)
  from new have "new = exchanges w'" by (simp add: empty_world_def)
  with guard failed have no_put: "\<forall>y \<in> set (exchanges w'). \<not> puts_manifest y" by simp
  from run failed no_put have A: "\<exists>r w'. RegistryService_syncImageWithBuffer (demo_service True) idle_queue
              ''src.io'' ''app'' ''v1'' ''dst.io'' ''mirror'' ''v1'' empty_world = Some (r, w') \<and>
            (\<exists>x \<in> set (exchanges w'). transfer_failed x) \<and>
            (\<forall>y \<in> set (exchanges w'). \<not> puts_manifest y)"
    by (intro exI conjI)

  \<comment> \<open>a concrete manifest whose layer cannot be probed\<close>
  let ?amd_src = "src_latest\<lparr>reference := ''sha256:amd''\<rparr>"
  let ?amd_dst = "dst_latest\<lparr>reference := ''sha256:amd''\<rparr>"
  have b1: "fst (fetchManifest (demo_world [] ''sha256:bbb'') [] ?amd_src)
         = Inr (ManifestDoc demo_manifest, docker_manifest_v2, [])"
    by (rule demo_fetch_manifest) simp_all
  have b2: "(0::nat) < length (layerBlobs demo_manifest)"
    by (simp add: demo_layerBlobs)
  have b3: "fst (copyBlob (demo_world [] ''sha256:bbb'') [] (AtLayer 0) ?amd_src ?amd_dst
              (digest (layerBlobs demo_manifest ! 0))) \<noteq> Inr ()"
    using demo_copyBlob_bad[of "[]" "''sha256:bbb''" "[]" "AtLayer 0" ?amd_src ?amd_dst]
    by (simp add: demo_layerBlobs)
  from b2 b3 have b4: "\<exists>i < length (layerBlobs demo_manifest).
      fst (copyBlob (demo_world [] ''sha256:bbb'') [] (AtLayer i) ?amd_src ?amd_dst
              (digest (layerBlobs demo_manifest ! i))) \<noteq> Inr ()"
    by (intro exI[where x = 0] conjI)
  have B1: "\<forall>e \<in> set (snd (copyImage (Suc 0) (demo_world [] ''sha256:bbb'') [] ?amd_src ?amd_dst)).
          \<not> publishes [] e"
    by (rule T[THEN conjunct2, THEN conjunct1, THEN mp])
       (rule conjI, rule b1, rule conjI, rule not_index_docker_v2, rule disjI1, rule b4)

  \<comment> \<open>an index whose second platform cannot be fetched\<close>
  have c1: "fst (fetchManifest (demo_world ''sha256:arm'' []) [] src_latest)
         = Inr (IndexDoc demo_index, manifest_list_v2, [])"
    by (rule demo_fetch_index) simp
  have c2: "(1::nat) < length (manifests demo_index)" by (simp add: demo_index_def)
  have c3: "fst (copyImage (Suc 0) (demo_world ''sha256:arm'' []) ([] @ [1])
              (src_latest\<lparr>reference := digest (manifests demo_index ! 1)\<rparr>)
              (dst_latest\<lparr>reference := digest (manifests demo_index ! 1)\<rparr>)) \<noteq> Fulfilled ()"
  proof -
    have d1: "digest (manifests demo_index ! 1) = ''sha256:arm''" by (simp add: demo_index_def)
    show ?thesis
      unfolding d1 copyImage_fetch_rejected[OF demo_fetch_bad] by simp
  qed
  have B2: "\<forall>e \<in> set (snd (copyImage (Suc (Suc 0)) (demo_world ''sha256:arm'' []) [] src_latest dst_latest)).
          \<not> publishes [] e"
    by (rule T[THEN conjunct2, THEN conjunct2, THEN conjunct1, THEN mp])
       (rule conjI, rule c1, rule conjI, rule index_list_v2, rule conjI, rule c2, rule c3)

  \<comment> \<open>an index whose two platforms are copied\<close>
  let ?put = "([], UploadManifest dst_latest (IndexDoc demo_index) manifest_list_v2 ''latest'')"
  have g1: "fst (fetchManifest (demo_world [] []) [] src_latest)
         = Inr (IndexDoc demo_index, manifest_list_v2, [])"
    by (rule demo_fetch_index) simp
  have g2: "\<forall>i < length (manifests demo_index).
      fst (sub_copy (Suc 0) (demo_world [] []) [] src_latest dst_latest demo_index i) = Fulfilled ()"
  proof (intro allI impI)
    fix i assume "i < length (manifests demo_index)"
    then have "i = 0 \<or> i = 1" by (auto simp: demo_index_def)
    then have "digest (manifests demo_index ! i) \<noteq> ''latest'' \<and> digest (manifests demo_index ! i) \<noteq> []"
      by (auto simp: demo_index_def)
    then show "fst (sub_copy (Suc 0) (demo_world [] []) [] src_latest dst_latest demo_index i)
        = Fulfilled ()"
      unfolding sub_copy_def by (intro demo_child_fulfilled) simp_all
  qed
  from copyImage_index_all_fulfilled[OF g1 index_list_v2 g2]
  have tr: "\<exists>evs. snd (copyImage (Suc (Suc 0)) (demo_world [] []) [] src_latest dst_latest)
      = evs @ [?put]"
    by (simp add: dst_latest_def)
  then have g3: "?put \<in> set (snd (copyImage (Suc (Suc 0)) (demo_world [] []) [] src_latest dst_latest))"
    by auto
  have g4: "publishes [] ?put" by (rule publish_event)
  from T[THEN conjunct2, THEN conjunct2, THEN conjunct2, THEN mp, OF conjI[OF g3 g4]]
  have B3: "\<exists>evs. snd (copyImage (Suc (Suc 0)) (demo_world [] []) [] src_latest dst_latest)
                = evs @ [?put] \<and> (\<forall>e' \<in> set evs. \<not> publishes [] e')"
    by (elim exE conjE) (intro exI conjI)
  from B1 have B1': "\<not> (\<exists>e \<in> set (snd (copyImage (Suc 0) (demo_world [] ''sha256:bbb'') []
      ?amd_src ?amd_dst)). publishes [] e)"
    by blast
  from B2 have B2': "\<not> (\<exists>e \<in> set (snd (copyImage (Suc (Suc 0)) (demo_world ''sha256:arm'' []) []
      src_latest dst_latest)). publishes [] e)"
    by blast
  from A b1 not_index_docker_v2 b2 b3 B1' c1 index_list_v2 c2 c3 B2' g3 g4 B3
  show ?thesis by (intro conjI)
qed

end
